theory Spec2Isabelle
  imports Complex_Main "HOL-Library.AList"
begin

section \<open>Data model of dash.py\<close>

text \<open>
  A cell of a pandas DataFrame. The type parameter \<open>'f\<close> is the type of
  double-precision numbers: the arithmetic on them is done by pandas and numpy, outside the
  script, and is taken as a parameter wherever the script uses it. \<open>Null\<close> is a
  missing value (None, NaN or NaT), which \<open>unique\<close> and \<open>isin\<close> treat as one value
  equal to itself.
\<close>

datatype 'f cell = Str string | Flt 'f | Time int | Null

text \<open>The exceptions the script can meet.\<close>

datatype py_error = KeyError | ValueError | TypeError | AttributeError | IOError

text \<open>
  A row maps column names to cells; a frame has its column names (an empty frame still has
  them) and its rows in order.
\<close>

type_synonym 'f row = "(string \<times> 'f cell) list"

record 'f frame =
  columns :: "string list"
  rows :: "'f row list"

text \<open>
  The library functions the script calls, as parameters of the model: Python's \<open>float\<close>
  and \<open>str\<close> on doubles, numpy's test for NaN and its arithmetic on doubles,
  \<open>pandas.to_datetime\<close> on one entry, \<open>Series.mean\<close> (the mean as a cell, a missing
  value when it is NaN, as for a series without entry), the projection of pyproj on one
  point, \<open>Timestamp.isoformat\<close>, and the exception that geopandas raises, if any, when it builds
  the GeoDataFrame and when it writes the GeoJSON file.
\<close>

record 'f library =
  py_float :: "string \<Rightarrow> 'f option"
  py_str :: "'f \<Rightarrow> string"
  is_nan :: "'f \<Rightarrow> bool"
  float_of_int :: "int \<Rightarrow> 'f"
  truediv :: "'f \<Rightarrow> 'f \<Rightarrow> 'f"
  multiply :: "'f \<Rightarrow> 'f \<Rightarrow> 'f"
  to_datetime :: "'f cell \<Rightarrow> int option"
  str_of_time :: "int \<Rightarrow> string"
  isoformat :: "int \<Rightarrow> string"
  series_mean :: "'f cell list \<Rightarrow> py_error + 'f cell"
  transform :: "'f \<Rightarrow> 'f \<Rightarrow> 'f \<times> 'f"
  geodataframe :: "'f frame \<Rightarrow> py_error option"
  to_file :: "'f frame \<Rightarrow> py_error option"

text \<open>\<open>row[col]\<close>: KeyError when the row has no such column.\<close>

definition row_get :: "'f row \<Rightarrow> string \<Rightarrow> py_error + 'f cell" where
  "row_get r col = (case map_of r col of None \<Rightarrow> Inl KeyError | Some v \<Rightarrow> Inr v)"

text \<open>\<open>df[col]\<close>, the column as a list of cells: KeyError when the frame has no such column.\<close>

fun cells_of :: "'f row list \<Rightarrow> string \<Rightarrow> py_error + 'f cell list" where
  "cells_of [] col = Inr []"
| "cells_of (r # rs) col =
     (case row_get r col of
        Inl e \<Rightarrow> Inl e
      | Inr v \<Rightarrow> (case cells_of rs col of Inl e \<Rightarrow> Inl e | Inr vs \<Rightarrow> Inr (v # vs)))"

definition get_col :: "'f frame \<Rightarrow> string \<Rightarrow> py_error + 'f cell list" where
  "get_col df col =
     (if col \<in> set (columns df) then cells_of (rows df) col else Inl KeyError)"

text \<open>\<open>Series.unique()\<close>: the distinct values, in order of first appearance.\<close>

definition unique :: "'a list \<Rightarrow> 'a list" where
  "unique xs = rev (remdups (rev xs))"

text \<open>\<open>Series.isin(values)\<close>: the boolean mask.\<close>

definition isin :: "'a list \<Rightarrow> 'a list \<Rightarrow> bool list" where
  "isin xs vals = map (\<lambda>x. x \<in> set vals) xs"

text \<open>\<open>df[mask]\<close>: the rows whose mask entry is true, columns and order kept.\<close>

definition boolean_index :: "'f frame \<Rightarrow> bool list \<Rightarrow> 'f frame" where
  "boolean_index df msk = df\<lparr>rows := map snd (filter fst (zip msk (rows df)))\<rparr>"

text \<open>\<open>df[col] = cells\<close>: an existing column is replaced in place, a new one is added last.\<close>

definition set_col :: "'f frame \<Rightarrow> string \<Rightarrow> 'f cell list \<Rightarrow> 'f frame" where
  "set_col df col cs =
     \<lparr>columns = (if col \<in> set (columns df) then columns df else columns df @ [col]),
      rows = map (\<lambda>(r, v). AList.update col v r) (zip (rows df) cs)\<rparr>"

text \<open>\<open>df.drop(columns=cols)\<close>: KeyError when one of them is not a column.\<close>

definition drop_columns :: "'f frame \<Rightarrow> string list \<Rightarrow> py_error + 'f frame" where
  "drop_columns df cols =
     (if set cols \<subseteq> set (columns df)
      then Inr \<lparr>columns = filter (\<lambda>c. c \<notin> set cols) (columns df),
                rows = map (filter (\<lambda>(c, v). c \<notin> set cols)) (rows df)\<rparr>
      else Inl KeyError)"

text \<open>\<open>pd.notnull\<close>: false on a missing value and on a double that is NaN.\<close>

fun notnull :: "'f library \<Rightarrow> 'f cell \<Rightarrow> bool" where
  "notnull lib Null = False"
| "notnull lib (Flt x) = (\<not> is_nan lib x)"
| "notnull lib (Str s) = True"
| "notnull lib (Time t) = True"

text \<open>A list comprehension or an element-wise conversion that stops at the first exception.\<close>

fun traverse :: "('a \<Rightarrow> py_error + 'b) \<Rightarrow> 'a list \<Rightarrow> py_error + 'b list" where
  "traverse f [] = Inr []"
| "traverse f (x # xs) =
     (case f x of
        Inl e \<Rightarrow> Inl e
      | Inr y \<Rightarrow> (case traverse f xs of Inl e \<Rightarrow> Inl e | Inr ys \<Rightarrow> Inr (y # ys)))"

text \<open>The messages shown to the user, named by the line of dash.py that issues them.\<close>

datatype message =
    Err_data_column_missing
  | Err_read_excel py_error
  | Err_geodataframe_empty
  | Err_no_lon_lat
  | Err_convert_geojson py_error
  | Err_no_time_data
  | Err_geojson_failed
  | Warn_no_filter_columns
  | Err_load_failed
  | Write_loaded
  | Success_saved

section \<open>Loading and coordinate normalisation\<close>

text \<open>\<open>.str.replace(',', '.')\<close> on one entry: every comma becomes a point.\<close>

definition str_replace_comma :: "string \<Rightarrow> string" where
  "str_replace_comma s = map (\<lambda>c. if c = CHR '','' then CHR ''.'' else c) s"

text \<open>\<open>.astype(str)\<close> on one entry.\<close>

fun astype_str :: "'f library \<Rightarrow> 'f cell \<Rightarrow> string" where
  "astype_str lib (Str s) = s"
| "astype_str lib (Flt x) = py_str lib x"
| "astype_str lib (Time t) = str_of_time lib t"
| "astype_str lib Null = ''nan''"

text \<open>\<open>.astype(float)\<close> on one entry: ValueError when \<open>float\<close> rejects the text.\<close>

definition astype_float :: "'f library \<Rightarrow> string \<Rightarrow> py_error + 'f cell" where
  "astype_float lib s = (case py_float lib s of None \<Rightarrow> Inl ValueError | Some x \<Rightarrow> Inr (Flt x))"

text \<open>Lines 25 and 26 on one entry of a coordinate column.\<close>

definition normalize_coordinate :: "'f library \<Rightarrow> 'f cell \<Rightarrow> py_error + 'f cell" where
  "normalize_coordinate lib c = astype_float lib (str_replace_comma (astype_str lib c))"

text \<open>Lines 25 and 26 on the column \<open>col\<close>.\<close>

definition normalize_column :: "'f library \<Rightarrow> 'f frame \<Rightarrow> string \<Rightarrow> py_error + 'f frame" where
  "normalize_column lib df col =
     (case get_col df col of
        Inl e \<Rightarrow> Inl e
      | Inr cs \<Rightarrow>
          (case traverse (normalize_coordinate lib) cs of
             Inl e \<Rightarrow> Inl e
           | Inr xs \<Rightarrow> Inr (set_col df col xs)))"

text \<open>\<open>pd.to_datetime(..., errors='coerce')\<close> on one entry: NaT when it cannot be parsed.\<close>

definition coerce_datetime :: "'f library \<Rightarrow> 'f cell \<Rightarrow> 'f cell" where
  "coerce_datetime lib c = (case to_datetime lib c of None \<Rightarrow> Null | Some t \<Rightarrow> Time t)"

text \<open>Line 20.\<close>

definition parse_dates :: "'f library \<Rightarrow> 'f frame \<Rightarrow> py_error + 'f frame" where
  "parse_dates lib df =
     (case get_col df ''Data'' of
        Inl e \<Rightarrow> Inl e
      | Inr cs \<Rightarrow> Inr (set_col df ''Data'' (map (coerce_datetime lib) cs)))"

text \<open>
  \<open>load_data\<close> (lines 15 to 31). The parameter \<open>excel\<close> is what \<open>pd.read_excel\<close>
  gives for the file: an exception or the table. The result is the messages issued and the
  table, or None.
\<close>

definition load_data ::
  "'f library \<Rightarrow> py_error + 'f frame \<Rightarrow> message list \<times> 'f frame option" where
  "load_data lib excel =
     (case excel of
        Inl e \<Rightarrow> ([Err_read_excel e], None)
      | Inr df \<Rightarrow>
          (case (if ''Data'' \<in> set (columns df)
                 then (case parse_dates lib df of Inl e \<Rightarrow> ([], Inl e) | Inr d \<Rightarrow> ([], Inr d))
                 else ([Err_data_column_missing], Inr df)) of
             (msgs, Inl e) \<Rightarrow> (msgs @ [Err_read_excel e], None)
           | (msgs, Inr df1) \<Rightarrow>
               (case normalize_column lib df1 ''POINT_X'' of
                  Inl e \<Rightarrow> (msgs @ [Err_read_excel e], None)
                | Inr df2 \<Rightarrow>
                    (case normalize_column lib df2 ''POINT_Y'' of
                       Inl e \<Rightarrow> (msgs @ [Err_read_excel e], None)
                     | Inr df3 \<Rightarrow> (msgs, Some df3)))))"

section \<open>Projection\<close>

text \<open>
  \<open>convert_utm_to_latlon\<close> (lines 34 to 37): each pair of projected coordinates goes through
  the projection; the two new columns are added.
\<close>

definition project_row :: "'f library \<Rightarrow> 'f row \<Rightarrow> py_error + 'f cell \<times> 'f cell" where
  "project_row lib r =
     (case row_get r ''POINT_X'' of
        Inl e \<Rightarrow> Inl e
      | Inr cx \<Rightarrow>
          (case row_get r ''POINT_Y'' of
             Inl e \<Rightarrow> Inl e
           | Inr cy \<Rightarrow>
               (case (cx, cy) of
                  (Flt x, Flt y) \<Rightarrow> Inr (Flt (fst (transform lib x y)), Flt (snd (transform lib x y)))
                | _ \<Rightarrow> Inl TypeError)))"

definition convert_utm_to_latlon :: "'f library \<Rightarrow> 'f frame \<Rightarrow> py_error + 'f frame" where
  "convert_utm_to_latlon lib df =
     (if ''POINT_X'' \<in> set (columns df) \<and> ''POINT_Y'' \<in> set (columns df)
      then (case traverse (project_row lib) (rows df) of
              Inl e \<Rightarrow> Inl e
            | Inr ps \<Rightarrow> Inr (set_col (set_col df ''Longitude'' (map fst ps)) ''Latitude'' (map snd ps)))
      else Inl KeyError)"

section \<open>Attribute filter engine\<close>

text \<open>
  \<open>apply_attribute_filters\<close> (dash.py, lines 40 to 44). The dict \<open>filters\<close> is the list
  of its items in iteration order. \<open>values and ...\<close> short-circuits: with an empty list the
  column is not even read.
\<close>

fun apply_attribute_filters ::
  "'f frame \<Rightarrow> (string \<times> 'f cell list) list \<Rightarrow> py_error + 'f frame" where
  "apply_attribute_filters df [] = Inr df"
| "apply_attribute_filters df ((col, vals) # filters) =
     (if vals \<noteq> [] then
        (case get_col df col of
           Inl e \<Rightarrow> Inl e
         | Inr cs \<Rightarrow>
             if length vals \<noteq> length (unique cs)
             then apply_attribute_filters (boolean_index df (isin cs vals)) filters
             else apply_attribute_filters df filters)
      else apply_attribute_filters df filters)"

section \<open>Conversion to GeoJSON\<close>

text \<open>
  \<open>convert_to_geojson\<close> (lines 47 to 63). The geometry column that the GeoDataFrame adds
  is read by nothing in the script and is left out: on success \<open>gdf\<close> has the rows of
  \<open>df\<close>. The result is the messages issued and the pair of the file and \<open>gdf\<close>, or
  None for \<open>(None, None)\<close>.
\<close>

definition convert_to_geojson ::
  "'f library \<Rightarrow> 'f frame \<Rightarrow> message list \<times> (string \<times> 'f frame) option" where
  "convert_to_geojson lib df =
     (if ''Longitude'' \<in> set (columns df) \<and> ''Latitude'' \<in> set (columns df) then
        (case geodataframe lib df of
           Some e \<Rightarrow> ([Err_convert_geojson e], None)
         | None \<Rightarrow>
             if rows df \<noteq> [] then
               (case to_file lib df of
                  Some e \<Rightarrow> ([Err_convert_geojson e], None)
                | None \<Rightarrow> ([], Some (''output.geojson'', df)))
             else ([Err_geodataframe_empty], None))
      else ([Err_no_lon_lat], None))"

section \<open>Layer composer\<close>

text \<open>A feature of the time-aware layer (lines 111 to 122).\<close>

record 'f feature =
  coordinates :: "'f cell \<times> 'f cell"
  time :: string
  popup :: "'f cell"
  style_color :: string

text \<open>What is added to the map, in the order of the calls.\<close>

datatype 'f layer =
    Basemap string
  | Logo string
  | Locate_control
  | Heat_map "('f cell \<times> 'f cell) list"
  | Timestamped_geojson "'f feature list"
  | Circle_marker "'f cell" "'f cell" string
  | Legend "('f cell \<times> string) list"
  | Geojson "'f frame"

record 'f scene =
  center :: "'f cell \<times> 'f cell"
  layers :: "'f layer list"

text \<open>Truth value of \<open>legend_column\<close>: None and the empty string are false.\<close>

definition truthy :: "string option \<Rightarrow> bool" where
  "truthy k = (case k of None \<Rightarrow> False | Some c \<Rightarrow> c \<noteq> [])"

text \<open>\<open>row[legend_column]\<close>: KeyError also when \<open>legend_column\<close> is None.\<close>

definition row_get_key :: "'f row \<Rightarrow> string option \<Rightarrow> py_error + 'f cell" where
  "row_get_key r k = (case k of None \<Rightarrow> Inl KeyError | Some c \<Rightarrow> row_get r c)"

text \<open>\<open>color_map.get(key, default)\<close> and \<open>color_map[key]\<close>; the dict is the list of its items.\<close>

definition dict_get :: "('k \<times> 'v) list \<Rightarrow> 'k \<Rightarrow> 'v \<Rightarrow> 'v" where
  "dict_get d k dflt = (case map_of d k of None \<Rightarrow> dflt | Some v \<Rightarrow> v)"

definition dict_index :: "('k \<times> 'v) list \<Rightarrow> 'k \<Rightarrow> py_error + 'v" where
  "dict_index d k = (case map_of d k of None \<Rightarrow> Inl KeyError | Some v \<Rightarrow> Inr v)"

text \<open>
  The check that folium makes of a location, in \<open>Map\<close>, \<open>HeatMap\<close> and
  \<open>CircleMarker\<close>: each coordinate goes through \<open>float\<close>, and ValueError is raised when
  that fails or gives NaN.
\<close>

fun coordinate_error :: "'f library \<Rightarrow> 'f cell \<Rightarrow> py_error option" where
  "coordinate_error lib (Flt x) = (if is_nan lib x then Some ValueError else None)"
| "coordinate_error lib (Str s) =
     (case py_float lib s of
        None \<Rightarrow> Some ValueError
      | Some x \<Rightarrow> if is_nan lib x then Some ValueError else None)"
| "coordinate_error lib (Time t) = Some ValueError"
| "coordinate_error lib Null = Some ValueError"

definition validate_location :: "'f library \<Rightarrow> 'f cell \<Rightarrow> 'f cell \<Rightarrow> py_error option" where
  "validate_location lib la lo =
     (case coordinate_error lib la of Some e \<Rightarrow> Some e | None \<Rightarrow> coordinate_error lib lo)"

text \<open>Line 84: the two means.\<close>

definition map_center :: "'f library \<Rightarrow> 'f frame \<Rightarrow> py_error + 'f cell \<times> 'f cell" where
  "map_center lib gdf =
     (case get_col gdf ''Latitude'' of
        Inl e \<Rightarrow> Inl e
      | Inr lats \<Rightarrow>
          (case series_mean lib lats of
             Inl e \<Rightarrow> Inl e
           | Inr la \<Rightarrow>
               (case get_col gdf ''Longitude'' of
                  Inl e \<Rightarrow> Inl e
                | Inr lons \<Rightarrow>
                    (case series_mean lib lons of Inl e \<Rightarrow> Inl e | Inr lo \<Rightarrow> Inr (la, lo)))))"

text \<open>Lines 86 to 97.\<close>

definition basemap_name :: "string \<Rightarrow> string" where
  "basemap_name basemap_option =
     (if basemap_option = ''Google Maps'' then ''ROADMAP''
      else if basemap_option = ''Google Satellite'' then ''SATELLITE''
      else if basemap_option = ''Google Terrain'' then ''TERRAIN''
      else if basemap_option = ''ESRI Satellite'' then ''Esri.WorldImagery''
      else if basemap_option = ''ESRI Street'' then ''Esri.WorldStreetMap''
      else ''openstreetmap'')"

text \<open>Line 104 for one row.\<close>

definition heat_point :: "'f row \<Rightarrow> py_error + 'f cell \<times> 'f cell" where
  "heat_point r =
     (case row_get r ''Latitude'' of
        Inl e \<Rightarrow> Inl e
      | Inr la \<Rightarrow> (case row_get r ''Longitude'' of Inl e \<Rightarrow> Inl e | Inr lo \<Rightarrow> Inr (la, lo)))"

text \<open>
  Lines 103 to 105: the heat layer is added whenever it is requested; \<open>HeatMap\<close> checks
  every point of the list once the list is built.
\<close>

definition heat_layer :: "'f library \<Rightarrow> 'f frame \<Rightarrow> bool \<Rightarrow> py_error + 'f layer list" where
  "heat_layer lib gdf generate_heatmap =
     (if generate_heatmap
      then (case traverse heat_point (rows gdf) of
              Inl e \<Rightarrow> Inl e
            | Inr heat_data \<Rightarrow>
                if list_all (\<lambda>(la, lo). validate_location lib la lo = None) heat_data
                then Inr [Heat_map heat_data]
                else Inl ValueError)
      else Inr [])"

text \<open>\<open>row['Data'].isoformat()\<close>: only a timestamp has the method.\<close>

definition cell_isoformat :: "'f library \<Rightarrow> 'f cell \<Rightarrow> py_error + string" where
  "cell_isoformat lib d = (case d of Time t \<Rightarrow> Inr (isoformat lib t) | _ \<Rightarrow> Inl AttributeError)"

text \<open>
  Lines 110 to 123 for one row: no feature when the timestamp is missing; otherwise the
  entries of the dict are evaluated in the order they are written.
\<close>

definition time_feature ::
  "'f library \<Rightarrow> string option \<Rightarrow> ('f cell \<times> string) list \<Rightarrow> 'f row
     \<Rightarrow> py_error + 'f feature option" where
  "time_feature lib legend_column color_map r =
     (case row_get r ''Data'' of
        Inl e \<Rightarrow> Inl e
      | Inr d \<Rightarrow>
          if notnull lib d then
            (case row_get r ''Longitude'' of
               Inl e \<Rightarrow> Inl e
             | Inr lo \<Rightarrow>
            (case row_get r ''Latitude'' of
               Inl e \<Rightarrow> Inl e
             | Inr la \<Rightarrow>
            (case cell_isoformat lib d of
               Inl e \<Rightarrow> Inl e
             | Inr t \<Rightarrow>
            (case (if truthy legend_column then row_get_key r legend_column else Inr (Str [])) of
               Inl e \<Rightarrow> Inl e
             | Inr p \<Rightarrow>
            (case (if color_map \<noteq> []
                   then (case row_get_key r legend_column of
                           Inl e \<Rightarrow> Inl e
                         | Inr k \<Rightarrow> Inr (dict_get color_map k ''blue''))
                   else Inr ''blue'') of
               Inl e \<Rightarrow> Inl e
             | Inr c \<Rightarrow>
                 Inr (Some \<lparr>coordinates = (lo, la), time = t, popup = p, style_color = c\<rparr>))))))
          else Inr None)"

text \<open>The loop of lines 109 to 123.\<close>

fun time_features ::
  "'f library \<Rightarrow> string option \<Rightarrow> ('f cell \<times> string) list \<Rightarrow> 'f row list
     \<Rightarrow> py_error + 'f feature list" where
  "time_features lib legend_column color_map [] = Inr []"
| "time_features lib legend_column color_map (r # rs) =
     (case time_feature lib legend_column color_map r of
        Inl e \<Rightarrow> Inl e
      | Inr fo \<Rightarrow>
          (case time_features lib legend_column color_map rs of
             Inl e \<Rightarrow> Inl e
           | Inr fs \<Rightarrow> Inr (case fo of None \<Rightarrow> fs | Some f \<Rightarrow> f # fs)))"

text \<open>Lines 107 to 143: the layer, or the message when there is no feature.\<close>

definition time_layer ::
  "'f library \<Rightarrow> 'f frame \<Rightarrow> string option \<Rightarrow> ('f cell \<times> string) list \<Rightarrow> bool
     \<Rightarrow> py_error + message list \<times> 'f layer list" where
  "time_layer lib gdf legend_column color_map generate_time_series =
     (if generate_time_series \<and> ''Data'' \<in> set (columns gdf) then
        (case time_features lib legend_column color_map (rows gdf) of
           Inl e \<Rightarrow> Inl e
         | Inr features \<Rightarrow>
             if features \<noteq> [] then Inr ([], [Timestamped_geojson features])
             else Inr ([Err_no_time_data], []))
      else Inr ([], []))"

text \<open>
  Lines 147 to 152 for one row: the colour is read with \<open>color_map[...]\<close>; the arguments
  are evaluated before \<open>CircleMarker\<close> checks the location.
\<close>

definition circle_marker ::
  "'f library \<Rightarrow> string option \<Rightarrow> ('f cell \<times> string) list \<Rightarrow> 'f row \<Rightarrow> py_error + 'f layer" where
  "circle_marker lib legend_column color_map r =
     (case row_get r ''Latitude'' of
        Inl e \<Rightarrow> Inl e
      | Inr la \<Rightarrow>
          (case row_get r ''Longitude'' of
             Inl e \<Rightarrow> Inl e
           | Inr lo \<Rightarrow>
               (case row_get_key r legend_column of
                  Inl e \<Rightarrow> Inl e
                | Inr k \<Rightarrow>
                    (case dict_index color_map k of
                       Inl e \<Rightarrow> Inl e
                     | Inr c \<Rightarrow>
                         (case validate_location lib la lo of
                            Some e \<Rightarrow> Inl e
                          | None \<Rightarrow> Inr (Circle_marker la lo c))))))"

text \<open>Lines 145 to 168: the markers, then the legend panel.\<close>

definition marker_layers ::
  "'f library \<Rightarrow> 'f frame \<Rightarrow> string option \<Rightarrow> ('f cell \<times> string) list
     \<Rightarrow> py_error + 'f layer list" where
  "marker_layers lib gdf legend_column color_map =
     (if truthy legend_column \<and> color_map \<noteq> [] then
        (case traverse (circle_marker lib legend_column color_map) (rows gdf) of
           Inl e \<Rightarrow> Inl e
         | Inr ms \<Rightarrow> Inr (ms @ [Legend color_map]))
      else Inr [])"

text \<open>
  \<open>create_map\<close> (lines 83 to 170). The parameter \<open>logo\<close> is what reading the file at
  \<open>logo_path\<close> gives; the map is created at the centre, which folium checks as a location. The result is the messages issued and either the exception that
  ended the call or the map.
\<close>

definition create_map ::
  "'f library \<Rightarrow> 'f frame \<Rightarrow> string \<Rightarrow> py_error + string \<Rightarrow> string option
     \<Rightarrow> ('f cell \<times> string) list \<Rightarrow> bool \<Rightarrow> bool \<Rightarrow> message list \<times> (py_error + 'f scene)" where
  "create_map lib gdf basemap_option logo legend_column color_map generate_heatmap
       generate_time_series =
     (case map_center lib gdf of
        Inl e \<Rightarrow> ([], Inl e)
      | Inr c \<Rightarrow>
     (case validate_location lib (fst c) (snd c) of
        Some e \<Rightarrow> ([], Inl e)
      | None \<Rightarrow>
     (case logo of
        Inl e \<Rightarrow> ([], Inl e)
      | Inr img \<Rightarrow>
     (case heat_layer lib gdf generate_heatmap of
        Inl e \<Rightarrow> ([], Inl e)
      | Inr hs \<Rightarrow>
     (case time_layer lib gdf legend_column color_map generate_time_series of
        Inl e \<Rightarrow> ([], Inl e)
      | Inr (msgs, ts) \<Rightarrow>
     (case marker_layers lib gdf legend_column color_map of
        Inl e \<Rightarrow> (msgs, Inl e)
      | Inr ms \<Rightarrow>
          (msgs, Inr \<lparr>center = c,
                       layers = [Basemap (basemap_name basemap_option), Logo img, Locate_control]
                                @ hs @ ts @ ms\<rparr>)))))))"

section \<open>Statistics aggregator\<close>

text \<open>
  \<open>Series.value_counts()\<close>: the missing values are dropped, each distinct value is counted,
  and the pairs are sorted by descending count (here stably, from the order of first
  appearance).
\<close>

definition value_counts :: "'f library \<Rightarrow> 'f cell list \<Rightarrow> ('f cell \<times> nat) list" where
  "value_counts lib cs =
     (let present = filter (notnull lib) cs
      in sort_key (\<lambda>(v, n). - int n) (map (\<lambda>v. (v, count_list present v)) (unique present)))"

text \<open>Line 184 for one count: \<open>(count / total_count) * 100\<close> in doubles.\<close>

definition percentage :: "'f library \<Rightarrow> nat \<Rightarrow> nat \<Rightarrow> 'f" where
  "percentage lib n total_count =
     multiply lib (truediv lib (float_of_int lib (int n)) (float_of_int lib (int total_count)))
       (float_of_int lib 100)"

text \<open>The data of the two charts: the columns of \<open>stats_df\<close> and the colours.\<close>

record 'f statistics =
  categoria :: "'f cell list"
  contagem :: "nat list"
  percentual :: "'f list"
  colors :: "string list"

text \<open>\<open>create_statistics_chart\<close> (lines 180 to 220); both charts show this data.\<close>

definition create_statistics_chart ::
  "'f library \<Rightarrow> 'f frame \<Rightarrow> string \<Rightarrow> ('f cell \<times> string) list \<Rightarrow> py_error + 'f statistics" where
  "create_statistics_chart lib df column_name color_map =
     (case get_col df column_name of
        Inl e \<Rightarrow> Inl e
      | Inr cs \<Rightarrow>
          (let counts = value_counts lib cs;
               total_count = sum_list (map snd counts)
           in Inr \<lparr>categoria = map fst counts,
                    contagem = map snd counts,
                    percentual = map (\<lambda>(v, n). percentage lib n total_count) counts,
                    colors = map (\<lambda>(v, n). dict_get color_map v ''#1f77b4'') counts\<rparr>))"

section \<open>The script\<close>

text \<open>What the user chooses in the sidebar.\<close>

record 'f sidebar =
  filter_columns_chosen :: "string list"
  values_chosen :: "string \<Rightarrow> 'f cell \<Rightarrow> bool"
  legend_chosen :: "string option"
  color_chosen :: "'f cell \<Rightarrow> string"
  basemap_chosen :: string
  heatmap_checked :: bool
  time_series_checked :: bool
  save_pressed :: bool

text \<open>What one run of the script shows.\<close>

record 'f run_output =
  messages :: "message list"
  table :: "'f frame option"
  filtered :: "'f frame option"
  scene :: "'f scene option"
  charts :: "'f statistics option"

text \<open>
  Lines 257 to 259 for one column: the options are the distinct values, all selected by
  default; the selection is the options the user keeps.
\<close>

definition filter_for ::
  "'f sidebar \<Rightarrow> 'f frame \<Rightarrow> string \<Rightarrow> py_error + string \<times> 'f cell list" where
  "filter_for ui df_to_display col =
     (case get_col df_to_display col of
        Inl e \<Rightarrow> Inl e
      | Inr cs \<Rightarrow> Inr (col, filter (values_chosen ui col) (unique cs)))"

text \<open>Lines 268 to 274.\<close>

definition pick_colors ::
  "'f sidebar \<Rightarrow> 'f frame \<Rightarrow> string option \<Rightarrow> py_error + ('f cell \<times> string) list" where
  "pick_colors ui df_filtered legend_column =
     (case legend_column of
        None \<Rightarrow> Inr []
      | Some c \<Rightarrow>
          if c \<noteq> [] then
            (case get_col df_filtered c of
               Inl e \<Rightarrow> Inl e
             | Inr cs \<Rightarrow> Inr (map (\<lambda>v. (v, color_chosen ui v)) (unique cs)))
          else Inr [])"

text \<open>
  Lines 276 to 314, once the filters are chosen: the map is composed from \<open>df\<close>, the table
  before filtering; the charts are drawn from \<open>df_filtered\<close>.
\<close>

definition compose ::
  "'f library \<Rightarrow> py_error + string \<Rightarrow> 'f sidebar \<Rightarrow> message list \<Rightarrow> 'f frame \<Rightarrow> 'f frame
     \<Rightarrow> string option \<Rightarrow> ('f cell \<times> string) list \<Rightarrow> py_error + 'f run_output" where
  "compose lib logo ui msgs df df_filtered legend_column color_map =
     (case convert_to_geojson lib df of
        (msgs1, None) \<Rightarrow>
          Inr \<lparr>messages = msgs @ msgs1 @ [Err_geojson_failed], table = Some df,
               filtered = Some df_filtered, scene = None, charts = None\<rparr>
      | (msgs1, Some (geojson_file, gdf)) \<Rightarrow>
          (case create_map lib gdf (basemap_chosen ui) logo legend_column color_map
                  (heatmap_checked ui) (time_series_checked ui) of
             (msgs2, Inl e) \<Rightarrow> Inl e
           | (msgs2, Inr m) \<Rightarrow>
               (case (if ''Analise'' \<in> set (columns df_filtered)
                      then (case create_statistics_chart lib df_filtered ''Analise'' color_map of
                              Inl e \<Rightarrow> Inl e
                            | Inr st \<Rightarrow> Inr (Some st))
                      else Inr None) of
                  Inl e \<Rightarrow> Inl e
                | Inr st \<Rightarrow>
                    Inr \<lparr>messages = msgs @ msgs1 @ msgs2
                                      @ (if save_pressed ui then [Success_saved] else []),
                         table = Some df, filtered = Some df_filtered,
                         scene = Some (m\<lparr>layers := layers m @ [Geojson gdf]\<rparr>),
                         charts = st\<rparr>)))"

text \<open>
  The script (lines 222 to 318). \<open>logo\<close> is what reading the logo file gives and
  \<open>excel\<close> what \<open>pd.read_excel\<close> gives. An exception that nothing catches ends the run:
  the result is then \<open>Inl\<close>.
\<close>

definition script ::
  "'f library \<Rightarrow> py_error + string \<Rightarrow> py_error + 'f frame \<Rightarrow> 'f sidebar
     \<Rightarrow> py_error + 'f run_output" where
  "script lib logo excel ui =
     (case logo of
        Inl e \<Rightarrow> Inl e
      | Inr img \<Rightarrow>
     (case load_data lib excel of
        (msgs, None) \<Rightarrow>
          Inr \<lparr>messages = msgs @ [Err_load_failed], table = None, filtered = None,
               scene = None, charts = None\<rparr>
      | (msgs, Some df0) \<Rightarrow>
     (case convert_utm_to_latlon lib df0 of
        Inl e \<Rightarrow> Inl e
      | Inr df \<Rightarrow>
     (case drop_columns df [''POINT_X'', ''POINT_Y'', ''Longitude'', ''Latitude''] of
        Inl e \<Rightarrow> Inl e
      | Inr df_to_display \<Rightarrow>
          (let filter_columns =
                 filter (\<lambda>c. c \<in> set (columns df_to_display)) (remdups (filter_columns_chosen ui))
           in if filter_columns \<noteq> [] then
                (case traverse (filter_for ui df_to_display) filter_columns of
                   Inl e \<Rightarrow> Inl e
                 | Inr filters \<Rightarrow>
                (case apply_attribute_filters df_to_display filters of
                   Inl e \<Rightarrow> Inl e
                 | Inr df_filtered \<Rightarrow>
                     (let legend_column =
                            (case legend_chosen ui of
                               None \<Rightarrow> None
                             | Some c \<Rightarrow> if c \<in> set filter_columns then Some c else None)
                      in (case pick_colors ui df_filtered legend_column of
                            Inl e \<Rightarrow> Inl e
                          | Inr color_map \<Rightarrow>
                              compose lib logo ui (msgs @ [Write_loaded]) df df_filtered
                                legend_column color_map))))
              else
                Inr \<lparr>messages = msgs @ [Write_loaded, Warn_no_filter_columns], table = Some df,
                     filtered = None, scene = None, charts = None\<rparr>)))))"

section \<open>A sample library and sample tables\<close>

text \<open>
  An instance of the library parameters, for concrete runs: its doubles are the real numbers
  with exact arithmetic and no NaN, \<open>float\<close> reads plain decimals (digits with at most one
  point), a date is read from the form YYYY-MM-DD into the number YYYYMMDD, the projection
  rescales, and geopandas never fails.
\<close>

definition digit_value :: "char \<Rightarrow> nat" where
  "digit_value c = of_char c - 48"

definition is_digit :: "char \<Rightarrow> bool" where
  "is_digit c = (48 \<le> (of_char c :: nat) \<and> (of_char c :: nat) \<le> 57)"

definition digits_value :: "string \<Rightarrow> nat" where
  "digits_value s = foldl (\<lambda>a c. 10 * a + digit_value c) 0 s"

definition sample_float :: "string \<Rightarrow> real option" where
  "sample_float s =
     (let ip = takeWhile (\<lambda>c. c \<noteq> CHR ''.'') s;
          fp = drop 1 (dropWhile (\<lambda>c. c \<noteq> CHR ''.'') s)
      in if count_list s (CHR ''.'') \<le> 1 \<and> ip @ fp \<noteq> [] \<and> list_all is_digit (ip @ fp)
         then Some (real (digits_value (ip @ fp)) / 10 ^ length fp)
         else None)"

definition digit_char :: "nat \<Rightarrow> char" where
  "digit_char n = ''0123456789'' ! (n mod 10)"

fun show_nat :: "nat \<Rightarrow> nat \<Rightarrow> string" where
  "show_nat 0 n = [digit_char n]"
| "show_nat (Suc k) n =
     (if n < 10 then [digit_char n] else show_nat k (n div 10) @ [digit_char n])"

definition sample_str :: "real \<Rightarrow> string" where
  "sample_str x =
     (let n = nat \<lfloor>\<bar>x\<bar> * 10\<rfloor>
      in (if x < 0 then ''-'' else []) @ show_nat n (n div 10) @ ''.'' @ [digit_char n])"

definition sample_date :: "string \<Rightarrow> int option" where
  "sample_date s =
     (if length s = 10 \<and> s ! 4 = CHR ''-'' \<and> s ! 7 = CHR ''-''
         \<and> list_all is_digit (take 4 s @ take 2 (drop 5 s) @ drop 8 s)
      then Some (int (digits_value (take 4 s @ take 2 (drop 5 s) @ drop 8 s)))
      else None)"

definition sample_to_datetime :: "real cell \<Rightarrow> int option" where
  "sample_to_datetime c = (case c of Str s \<Rightarrow> sample_date s | Time t \<Rightarrow> Some t | _ \<Rightarrow> None)"

definition sample_isoformat :: "int \<Rightarrow> string" where
  "sample_isoformat t =
     (let n = nat t
      in [digit_char (n div 10000000), digit_char (n div 1000000), digit_char (n div 100000),
          digit_char (n div 10000), CHR ''-'', digit_char (n div 1000), digit_char (n div 100),
          CHR ''-'', digit_char (n div 10), digit_char n] @ ''T00:00:00'')"

fun sample_numbers :: "real cell list \<Rightarrow> py_error + real list" where
  "sample_numbers [] = Inr []"
| "sample_numbers (Flt x # cs) =
     (case sample_numbers cs of Inl e \<Rightarrow> Inl e | Inr xs \<Rightarrow> Inr (x # xs))"
| "sample_numbers (Null # cs) = sample_numbers cs"
| "sample_numbers (c # cs) = Inl TypeError"

definition sample_mean :: "real cell list \<Rightarrow> py_error + real cell" where
  "sample_mean cs =
     (case sample_numbers cs of
        Inl e \<Rightarrow> Inl e
      | Inr xs \<Rightarrow> if xs = [] then Inr Null else Inr (Flt (sum_list xs / real (length xs))))"

definition sample_library :: "real library" where
  "sample_library =
     \<lparr>py_float = sample_float, py_str = sample_str, is_nan = (\<lambda>x. False),
      float_of_int = real_of_int, truediv = (\<lambda>x y. x / y), multiply = (\<lambda>x y. x * y),
      to_datetime = sample_to_datetime, str_of_time = sample_isoformat,
      isoformat = sample_isoformat, series_mean = sample_mean,
      transform = (\<lambda>x y. (x / 100000 - 60, y / 100000 - 100)),
      geodataframe = (\<lambda>df. None), to_file = (\<lambda>df. None)\<rparr>"

text \<open>A table of three survey points; the date of the second cannot be read.\<close>

definition sample_table :: "real frame" where
  "sample_table =
     \<lparr>columns = [''POINT_X'', ''POINT_Y'', ''Data'', ''Tipo''],
      rows =
        [[(''POINT_X'', Str ''680000,5''), (''POINT_Y'', Str ''7460000,2''),
          (''Data'', Str ''2023-01-05''), (''Tipo'', Str ''A'')],
         [(''POINT_X'', Str ''681000.0''), (''POINT_Y'', Str ''7461000.0''),
          (''Data'', Str ''sem data''), (''Tipo'', Str ''A'')],
         [(''POINT_X'', Str ''682000''), (''POINT_Y'', Str ''7462000''),
          (''Data'', Str ''2023-01-06''), (''Tipo'', Str ''B'')]]\<rparr>"

text \<open>The same columns and no row.\<close>

definition empty_table :: "real frame" where
  "empty_table = \<lparr>columns = [''POINT_X'', ''POINT_Y'', ''Data'', ''Tipo''], rows = []\<rparr>"

text \<open>
  A sidebar: the column Tipo is filtered to the value A; \<open>legend\<close> is the legend column
  chosen, every colour is left at the default of the colour picker, and the heat layer and the
  time series are requested.
\<close>

definition sample_sidebar :: "string option \<Rightarrow> real sidebar" where
  "sample_sidebar legend =
     \<lparr>filter_columns_chosen = [''Tipo''], values_chosen = (\<lambda>col v. v = Str ''A''),
      legend_chosen = legend, color_chosen = (\<lambda>v. ''#3388ff''),
      basemap_chosen = ''OpenStreetMap'', heatmap_checked = True, time_series_checked = True,
      save_pressed = False\<rparr>"


text \<open>A table whose first coordinate has a thousands separator and a decimal comma.\<close>

definition comma_table :: "real frame" where
  "comma_table =
     \<lparr>columns = [''POINT_X'', ''POINT_Y''],
      rows = [[(''POINT_X'', Str ''680,000,5''), (''POINT_Y'', Str ''7460000,2'')]]\<rparr>"

text \<open>The sample table as \<open>load_data\<close> returns it with the sample library.\<close>

definition loaded_table :: "real frame" where
  "loaded_table =
     \<lparr>columns = [''POINT_X'', ''POINT_Y'', ''Data'', ''Tipo''],
      rows =
        [[(''POINT_X'', Flt (1360001 / 2)), (''POINT_Y'', Flt (37300001 / 5)),
          (''Data'', Time 20230105), (''Tipo'', Str ''A'')],
         [(''POINT_X'', Flt 681000), (''POINT_Y'', Flt 7461000),
          (''Data'', Null), (''Tipo'', Str ''A'')],
         [(''POINT_X'', Flt 682000), (''POINT_Y'', Flt 7462000),
          (''Data'', Time 20230106), (''Tipo'', Str ''B'')]]\<rparr>"

text \<open>The sample table after loading and projection, with the sample library.\<close>

definition projected_table :: "real frame" where
  "projected_table =
     \<lparr>columns = [''POINT_X'', ''POINT_Y'', ''Data'', ''Tipo'', ''Longitude'', ''Latitude''],
      rows =
        [[(''POINT_X'', Flt (1360001 / 2)), (''POINT_Y'', Flt (37300001 / 5)),
          (''Data'', Time 20230105), (''Tipo'', Str ''A''),
          (''Longitude'', Flt (- (10639999 / 200000))), (''Latitude'', Flt (- (12699999 / 500000)))],
         [(''POINT_X'', Flt 681000), (''POINT_Y'', Flt 7461000),
          (''Data'', Null), (''Tipo'', Str ''A''),
          (''Longitude'', Flt (- (5319 / 100))), (''Latitude'', Flt (- (2539 / 100)))],
         [(''POINT_X'', Flt 682000), (''POINT_Y'', Flt 7462000),
          (''Data'', Time 20230106), (''Tipo'', Str ''B''),
          (''Longitude'', Flt (- (2659 / 50))), (''Latitude'', Flt (- (1269 / 50)))]]\<rparr>"

text \<open>The same without the coordinate columns: \<open>df_to_display\<close>.\<close>

definition display_table :: "real frame" where
  "display_table =
     \<lparr>columns = [''Data'', ''Tipo''],
      rows =
        [[(''Data'', Time 20230105), (''Tipo'', Str ''A'')],
         [(''Data'', Null), (''Tipo'', Str ''A'')],
         [(''Data'', Time 20230106), (''Tipo'', Str ''B'')]]\<rparr>"

text \<open>The heat layer of the three sample points.\<close>

definition sample_heat :: "real layer" where
  "sample_heat =
     Heat_map
      [(Flt (- (12699999 / 500000)), Flt (- (10639999 / 200000))),
       (Flt (- (2539 / 100)), Flt (- (5319 / 100))),
       (Flt (- (1269 / 50)), Flt (- (2659 / 50)))]"

text \<open>The time features of the two dated sample rows, with the colour and the popups of the first.\<close>

definition sample_features :: "string \<Rightarrow> real cell \<Rightarrow> real cell \<Rightarrow> real feature list" where
  "sample_features c p1 p3 =
     [\<lparr>coordinates = (Flt (- (10639999 / 200000)), Flt (- (12699999 / 500000))),
       time = ''2023-01-05T00:00:00'', popup = p1, style_color = c\<rparr>,
      \<lparr>coordinates = (Flt (- (2659 / 50)), Flt (- (1269 / 50))),
       time = ''2023-01-06T00:00:00'', popup = p3, style_color = ''blue''\<rparr>]"

text \<open>The map that \<open>create_map\<close> composes for the sample table when no legend is chosen.\<close>

definition sample_scene :: "real scene" where
  "sample_scene =
     \<lparr>center = (Flt (- (38084999 / 1500000)), Flt (- (31913999 / 600000))),
      layers = [Basemap ''openstreetmap'', Logo ''logo'', Locate_control, sample_heat,
                Timestamped_geojson (sample_features ''blue'' (Str []) (Str []))]\<rparr>"

text \<open>
  What the claims observe in a composed map: the features of its time-aware layer, and its
  general feature set, the rows of the GeoJSON layer that the script adds to every map.
\<close>

definition layer_features :: "'f layer \<Rightarrow> 'f feature list" where
  "layer_features l = (case l of Timestamped_geojson fs \<Rightarrow> fs | _ \<Rightarrow> [])"

definition time_features_of :: "'f scene \<Rightarrow> 'f feature list" where
  "time_features_of m = concat (map layer_features (layers m))"

definition layer_rows :: "'f layer \<Rightarrow> 'f row list" where
  "layer_rows l = (case l of Geojson df \<Rightarrow> rows df | _ \<Rightarrow> [])"

definition base_features_of :: "'f scene \<Rightarrow> 'f row list" where
  "base_features_of m = concat (map layer_rows (layers m))"

text \<open>A row whose timestamp is not missing, as line 110 tests it.\<close>

definition has_timestamp :: "'f library \<Rightarrow> 'f row \<Rightarrow> bool" where
  "has_timestamp lib r = (case row_get r ''Data'' of Inl e \<Rightarrow> False | Inr d \<Rightarrow> notnull lib d)"

text \<open>The feature \<open>f\<close> has the coordinates and the timestamp of the row \<open>r\<close>.\<close>

definition feature_from_row :: "'f library \<Rightarrow> 'f feature \<Rightarrow> 'f row \<Rightarrow> bool" where
  "feature_from_row lib f r =
     (row_get r ''Longitude'' = Inr (fst (coordinates f))
      \<and> row_get r ''Latitude'' = Inr (snd (coordinates f))
      \<and> (case row_get r ''Data'' of Inr (Time t) \<Rightarrow> time f = isoformat lib t | _ \<Rightarrow> False))"

text \<open>What the script shows for the sample table when Tipo is filtered to A and no legend is chosen.\<close>

definition sample_run :: "real run_output" where
  "sample_run =
     \<lparr>messages = [Write_loaded], table = Some projected_table,
      filtered = Some (display_table\<lparr>rows := take 2 (rows display_table)\<rparr>),
      scene = Some (sample_scene\<lparr>layers := layers sample_scene @ [Geojson projected_table]\<rparr>),
      charts = None\<rparr>"

text \<open>
  The rounding of binary64 arithmetic, as a property that the theorems on the percentages
  ask of the library: \<open>val\<close> reads a double as a real number, and a result \<open>x\<close> is
  within the unit roundoff of the exact value \<open>r\<close>. This is what IEEE 754 gives for the
  conversion of a positive 64-bit integer and for a quotient or a product of positive doubles
  whose exact value is neither very small nor very large.
\<close>

definition rounds_within :: "real \<Rightarrow> real \<Rightarrow> bool" where
  "rounds_within x r = (\<bar>x - r\<bar> \<le> r / 2 ^ 53)"

definition binary64_model :: "('f \<Rightarrow> real) \<Rightarrow> 'f library \<Rightarrow> bool" where
  "binary64_model val lib =
     ((\<forall>n. 0 < n \<and> n < 2 ^ 63 \<longrightarrow> rounds_within (val (float_of_int lib n)) (real_of_int n))
      \<and> (\<forall>a b. 0 < val a \<and> 0 < val b \<and> 1 / 2 ^ 64 \<le> val a / val b \<and> val a / val b \<le> 2 ^ 64
            \<longrightarrow> rounds_within (val (truediv lib a b)) (val a / val b))
      \<and> (\<forall>a b. 0 < val a \<and> 0 < val b \<and> 1 / 2 ^ 64 \<le> val a * val b \<and> val a * val b \<le> 2 ^ 64
            \<longrightarrow> rounds_within (val (multiply lib a b)) (val a * val b)))"

text \<open>A table with the column of the charts: two values, and one missing entry.\<close>

definition analise_table :: "real frame" where
  "analise_table =
     \<lparr>columns = [''Analise''],
      rows = [[(''Analise'', Str ''ok'')], [(''Analise'', Null)], [(''Analise'', Str ''ok'')],
              [(''Analise'', Str ''falha'')]]\<rparr>"

text \<open>A table whose only entry in that column is missing.\<close>

definition missing_table :: "real frame" where
  "missing_table = \<lparr>columns = [''Analise''], rows = [[(''Analise'', Null)]]\<rparr>"

section \<open>Facts about frames\<close>

lemma cells_of_length: "cells_of rs col = Inr cs \<Longrightarrow> length cs = length rs"
  by (induction rs arbitrary: cs) (auto split: sum.splits)

lemma get_col_length: "get_col df col = Inr cs \<Longrightarrow> length cs = length (rows df)"
  by (auto simp: get_col_def cells_of_length split: if_splits)

lemma filter_fst_all_True:
  "length ms = length rs \<Longrightarrow> \<forall>m \<in> set ms. m \<Longrightarrow> map snd (filter fst (zip ms rs)) = rs"
  by (induction ms rs rule: list_induct2) auto

lemma boolean_index_all:
  "get_col df col = Inr cs \<Longrightarrow> set cs \<subseteq> set vals \<Longrightarrow> boolean_index df (isin cs vals) = df"
  by (simp add: boolean_index_def isin_def filter_fst_all_True get_col_length subset_iff)

lemma sample_tipo:
  "get_col sample_table ''Tipo'' = Inr [Str ''A'', Str ''A'', Str ''B'']"
  by (simp add: sample_table_def get_col_def row_get_def)

lemma sample_data:
  "get_col sample_table ''Data'' = Inr [Str ''2023-01-05'', Str ''sem data'', Str ''2023-01-06'']"
  by (simp add: sample_table_def get_col_def row_get_def)

section \<open>The attribute filter engine\<close>

text \<open>Filtering with two lists of filters in a row is filtering with the first, then the second.\<close>

lemma apply_attribute_filters_append:
  "apply_attribute_filters df (fs1 @ fs2) =
     (case apply_attribute_filters df fs1 of
        Inl e \<Rightarrow> Inl e
      | Inr d \<Rightarrow> apply_attribute_filters d fs2)"
  by (induction df fs1 rule: apply_attribute_filters.induct) (auto split: sum.splits)

lemma sample_dated:
  "apply_attribute_filters sample_table [(''Data'', [Str ''2023-01-05'', Str ''sem data''])]
     = Inr (sample_table\<lparr>rows := take 2 (rows sample_table)\<rparr>)"
  by (simp add: sample_data unique_def isin_def boolean_index_def) (simp add: sample_table_def)

text \<open>
  Claim C1, as the code has it: a column whose list of allowed values is empty is skipped.
  Wherever the entry stands among the filters, the result is the one without the entry; the
  empty list excludes nothing.
\<close>

theorem empty_allowed_list_is_skipped:
  "apply_attribute_filters df (fs1 @ (col, []) # fs2) = apply_attribute_filters df (fs1 @ fs2)"
  by (simp add: apply_attribute_filters_append split: sum.splits)

text \<open>
  Claim C1 as stated fails: with an empty list of allowed values for Tipo, the three rows of
  the sample table are all returned.
\<close>

theorem empty_allowed_list_counterexample:
  "apply_attribute_filters sample_table [(''Tipo'', [])] = Inr sample_table
   \<and> length (rows sample_table) = 3"
  by (simp add: sample_table_def)

text \<open>
  Claim C4: when every constrained column exists and its allowed values are, as a set, the
  values present in that column, the filter engine returns the table itself, with the same
  rows in the same order.
\<close>

theorem full_sets_noop:
  assumes "\<forall>(col, vals) \<in> set filters. \<exists>cs. get_col df col = Inr cs \<and> set vals = set cs"
  shows "apply_attribute_filters df filters = Inr df"
  using assms
proof (induction filters)
  case Nil
  then show ?case by simp
next
  case (Cons f filters)
  obtain col vals where f: "f = (col, vals)" by (cases f)
  from Cons.prems f obtain cs where cs: "get_col df col = Inr cs" "set vals = set cs"
    by auto
  have rest: "apply_attribute_filters df filters = Inr df"
    using Cons by simp
  show ?case
    using f cs rest boolean_index_all [OF cs(1), of vals] by simp
qed

text \<open>
  On the sample table, with the two values of Tipo listed three times over: the lengths
  differ, the mask is computed, and every row stays.
\<close>

theorem full_sets_noop_witness:
  "get_col sample_table ''Tipo'' = Inr [Str ''A'', Str ''A'', Str ''B'']
   \<and> set [Str ''B'', Str ''A'', Str ''B''] = set [Str ''A'' :: real cell, Str ''A'', Str ''B'']
   \<and> apply_attribute_filters sample_table [(''Tipo'', [Str ''B'', Str ''A'', Str ''B''])]
       = Inr sample_table"
proof -
  have h: "\<forall>(col, vals) \<in> set [(''Tipo'', [Str ''B'', Str ''A'', Str ''B''])].
      \<exists>cs. get_col sample_table col = Inr cs \<and> set vals = set (cs :: real cell list)"
    by (auto simp: sample_tipo)
  show ?thesis using sample_tipo full_sets_noop [OF h] by auto
qed

text \<open>
  Claim C9: a constraint is skipped whenever its list of allowed values is as long as the
  list of distinct values of its column in the frame reached at that step, that is in the
  frame \<open>df1\<close> left by the filters before it, whatever the values listed.
\<close>

theorem cardinality_noop:
  assumes "apply_attribute_filters df fs1 = Inr df1"
    and "get_col df1 col = Inr cs"
    and "length vals = length (unique cs)"
  shows "apply_attribute_filters df (fs1 @ (col, vals) # fs2) = apply_attribute_filters df1 fs2"
  using assms by (simp add: apply_attribute_filters_append)

text \<open>
  On the sample table: the filter on Data leaves two rows, both of Tipo A. The constraint
  on Tipo lists the one value Z, which no row has; one value is listed and one is present in
  the frame at that step (two in the table), so both rows stay.
\<close>

theorem cardinality_noop_witness:
  "apply_attribute_filters sample_table [(''Data'', [Str ''2023-01-05'', Str ''sem data''])]
     = Inr (sample_table\<lparr>rows := take 2 (rows sample_table)\<rparr>)
   \<and> get_col (sample_table\<lparr>rows := take 2 (rows sample_table)\<rparr>) ''Tipo''
       = Inr [Str ''A'', Str ''A'']
   \<and> length [Str ''Z'' :: real cell] = length (unique [Str ''A'' :: real cell, Str ''A''])
   \<and> length (unique [Str ''A'' :: real cell, Str ''A'', Str ''B'']) = 2
   \<and> apply_attribute_filters sample_table
        ([(''Data'', [Str ''2023-01-05'', Str ''sem data''])] @ (''Tipo'', [Str ''Z'']) # [])
       = Inr (sample_table\<lparr>rows := take 2 (rows sample_table)\<rparr>)"
proof -
  have a: "get_col (sample_table\<lparr>rows := take 2 (rows sample_table)\<rparr>) ''Tipo''
             = Inr [Str ''A'', Str ''A'' :: real cell]"
    by (simp add: sample_table_def get_col_def row_get_def)
  have b: "length [Str ''Z'' :: real cell] = length (unique [Str ''A'' :: real cell, Str ''A''])"
    by (simp add: unique_def)
  have c: "length (unique [Str ''A'' :: real cell, Str ''A'', Str ''B'']) = 2"
    by (simp add: unique_def)
  show ?thesis
    using sample_dated a b c cardinality_noop [OF sample_dated a b, of "[]"] by simp
qed

section \<open>Coordinate normalisation and loading\<close>






lemma count_str_replace_comma:
  "count_list (str_replace_comma s) (CHR ''.'') = count_list s (CHR ''.'') + count_list s (CHR '','')"
  by (induction s) (auto simp: str_replace_comma_def)

lemma no_comma_str_replace_comma: "CHR '','' \<notin> set (str_replace_comma s)"
  by (auto simp: str_replace_comma_def)

lemma traverse_length: "traverse f xs = Inr ys \<Longrightarrow> length ys = length xs"
  by (induction xs arbitrary: ys) (auto split: sum.splits)

lemma traverse_fails: "x \<in> set xs \<Longrightarrow> f x = Inl e \<Longrightarrow> \<exists>e'. traverse f xs = Inl e'"
  by (induction xs) (auto split: sum.splits)

lemma cells_of_member:
  "cells_of rs col = Inr cs \<Longrightarrow> r \<in> set rs \<Longrightarrow> row_get r col = Inr v \<Longrightarrow> v \<in> set cs"
  by (induction rs arbitrary: cs) (auto split: sum.splits)

lemma get_col_member:
  "get_col df col = Inr cs \<Longrightarrow> r \<in> set (rows df) \<Longrightarrow> row_get r col = Inr v \<Longrightarrow> v \<in> set cs"
  by (auto simp: get_col_def cells_of_member split: if_splits)

lemma row_get_update_other: "c \<noteq> col \<Longrightarrow> row_get (AList.update c v r) col = row_get r col"
  by (simp add: row_get_def update_conv')

lemma set_col_keeps_cell:
  assumes "length xs = length (rows df)" and "r \<in> set (rows df)" and "row_get r col = Inr v"
    and "c \<noteq> col"
  shows "\<exists>r' \<in> set (rows (set_col df c xs)). row_get r' col = Inr v"
proof -
  from assms(2) obtain i where i: "i < length (rows df)" "rows df ! i = r"
    by (auto simp: in_set_conv_nth)
  let ?r' = "AList.update c (xs ! i) r"
  have "rows (set_col df c xs) ! i = ?r'"
    using i assms(1) by (simp add: set_col_def)
  moreover have "i < length (rows (set_col df c xs))"
    using i assms(1) by (simp add: set_col_def)
  ultimately have "?r' \<in> set (rows (set_col df c xs))"
    by (metis nth_mem)
  then show ?thesis
    using assms(3,4) row_get_update_other by metis
qed

lemma normalize_column_fails:
  assumes "r \<in> set (rows df)" and "row_get r col = Inr c" and "normalize_coordinate lib c = Inl e"
  shows "\<exists>e'. normalize_column lib df col = Inl e'"
proof (cases "get_col df col")
  case (Inl a)
  then show ?thesis by (simp add: normalize_column_def)
next
  case (Inr cs)
  then have "c \<in> set cs" using assms(1,2) get_col_member by metis
  then obtain e' where "traverse (normalize_coordinate lib) cs = Inl e'"
    using traverse_fails assms(3) by metis
  then show ?thesis using Inr by (simp add: normalize_column_def)
qed

lemma normalize_column_keeps_cell:
  assumes "normalize_column lib df c = Inr df'" and "r \<in> set (rows df)" and "row_get r col = Inr v"
    and "c \<noteq> col"
  shows "\<exists>r' \<in> set (rows df'). row_get r' col = Inr v"
proof -
  from assms(1) obtain cs xs where cs: "get_col df c = Inr cs"
    and xs: "traverse (normalize_coordinate lib) cs = Inr xs" and df': "df' = set_col df c xs"
    by (auto simp: normalize_column_def split: sum.splits)
  have "length xs = length (rows df)"
    using cs xs by (simp add: traverse_length get_col_length)
  then show ?thesis
    using set_col_keeps_cell assms(2,3,4) df' by metis
qed

lemma parse_dates_keeps_cell:
  assumes "parse_dates lib df = Inr df'" and "r \<in> set (rows df)" and "row_get r col = Inr v"
    and "''Data'' \<noteq> col"
  shows "\<exists>r' \<in> set (rows df'). row_get r' col = Inr v"
proof -
  from assms(1) obtain cs where cs: "get_col df ''Data'' = Inr cs"
    and df': "df' = set_col df ''Data'' (map (coerce_datetime lib) cs)"
    by (auto simp: parse_dates_def split: sum.splits)
  have "length (map (coerce_datetime lib) cs) = length (rows df)"
    using cs by (simp add: get_col_length)
  then show ?thesis
    using set_col_keeps_cell assms(2,3,4) df' by metis
qed

lemma load_data_coordinates_fail:
  assumes "col = ''POINT_X'' \<or> col = ''POINT_Y''"
    and "r \<in> set (rows df)" and "row_get r col = Inr c" and "normalize_coordinate lib c = Inl e"
  shows "snd (load_data lib (Inr df)) = None"
proof -
  have step: "snd (case normalize_column lib d ''POINT_X'' of
                  Inl e \<Rightarrow> (msgs @ [Err_read_excel e], None)
                | Inr df2 \<Rightarrow>
                    (case normalize_column lib df2 ''POINT_Y'' of
                       Inl e \<Rightarrow> (msgs @ [Err_read_excel e], None)
                     | Inr df3 \<Rightarrow> (msgs, Some df3))) = None"
    if d: "\<exists>r' \<in> set (rows d). row_get r' col = Inr c" for d :: "'a frame" and msgs
  proof (cases "normalize_column lib d ''POINT_X''")
    case (Inl a)
    then show ?thesis by simp
  next
    case (Inr df2)
    have colY: "col = ''POINT_Y''"
      using Inr d assms(1,4) normalize_column_fails by fastforce
    then have "\<exists>r' \<in> set (rows df2). row_get r' col = Inr c"
      using normalize_column_keeps_cell [OF Inr] d by fastforce
    then obtain e' where "normalize_column lib df2 ''POINT_Y'' = Inl e'"
      using normalize_column_fails assms(4) colY by metis
    then show ?thesis using Inr by simp
  qed
  show ?thesis
  proof (cases "''Data'' \<in> set (columns df)")
    case False
    then show ?thesis
      using step [of df] assms(2,3) by (auto simp: load_data_def)
  next
    case True
    show ?thesis
    proof (cases "parse_dates lib df")
      case (Inl a)
      then show ?thesis using True by (simp add: load_data_def)
    next
      case (Inr d)
      have "''Data'' \<noteq> col" using assms(1) by auto
      then have "\<exists>r' \<in> set (rows d). row_get r' col = Inr c"
        using parse_dates_keeps_cell [OF Inr assms(2,3)] by simp
      then show ?thesis
        using step [of d] True Inr by (simp add: load_data_def)
    qed
  qed
qed

text \<open>
  Claim C10: the normaliser replaces every comma. When \<open>float\<close> rejects a text with two
  points or more, as Python's does, an entry of POINT_X or POINT_Y with two commas or more
  cannot be converted, and \<open>load_data\<close> returns None for the whole table.
\<close>

theorem two_commas_fail_load:
  assumes "\<forall>t. 2 \<le> count_list t (CHR ''.'') \<longrightarrow> py_float lib t = None"
    and "col = ''POINT_X'' \<or> col = ''POINT_Y''"
    and "r \<in> set (rows df)" and "row_get r col = Inr (Str s)"
    and "2 \<le> count_list s (CHR '','')"
  shows "CHR '','' \<notin> set (str_replace_comma s)
         \<and> normalize_coordinate lib (Str s) = Inl ValueError
         \<and> snd (load_data lib (Inr df)) = None"
proof -
  have "2 \<le> count_list (str_replace_comma s) (CHR ''.'')"
    using assms(5) by (simp add: count_str_replace_comma)
  then have n: "normalize_coordinate lib (Str s) = Inl ValueError"
    using assms(1) by (simp add: normalize_coordinate_def astype_float_def)
  show ?thesis
    using n no_comma_str_replace_comma load_data_coordinates_fail [OF assms(2,3,4) n] by simp
qed

text \<open>On the table whose first coordinate is written 680,000,5, with the sample library.\<close>

lemma sample_float_two_points:
  "\<forall>t. 2 \<le> count_list t (CHR ''.'') \<longrightarrow> py_float sample_library t = None"
  by (simp add: sample_library_def sample_float_def Let_def)

theorem two_commas_fail_load_witness:
  "count_list ''680,000,5'' (CHR '','') = 2
   \<and> normalize_coordinate sample_library (Str ''680,000,5'') = Inl ValueError
   \<and> snd (load_data sample_library (Inr comma_table)) = None"
proof -
  have a: "''POINT_X'' = ''POINT_X'' \<or> ''POINT_X'' = ''POINT_Y''" by simp
  have b: "[(''POINT_X'', Str ''680,000,5''), (''POINT_Y'', Str ''7460000,2'')]
             \<in> set (rows comma_table)"
    by (simp add: comma_table_def)
  have c: "row_get [(''POINT_X'', Str ''680,000,5''), (''POINT_Y'', Str ''7460000,2'' :: real cell)]
             ''POINT_X'' = Inr (Str ''680,000,5'')"
    by (simp add: row_get_def)
  have d: "2 \<le> count_list ''680,000,5'' (CHR '','')" by simp
  show ?thesis
    using two_commas_fail_load [OF sample_float_two_points a b c d] by simp
qed

section \<open>Dates\<close>

lemma cells_of_set_rows_same:
  "length rs = length xs \<Longrightarrow>
     cells_of (map (\<lambda>(r, v). AList.update c v r) (zip rs xs)) c = Inr xs"
  by (induction rs xs rule: list_induct2) (auto simp: row_get_def update_conv')

lemma cells_of_set_rows_other:
  "length rs = length xs \<Longrightarrow> c \<noteq> col \<Longrightarrow>
     cells_of (map (\<lambda>(r, v). AList.update c v r) (zip rs xs)) col = cells_of rs col"
  by (induction rs xs rule: list_induct2) (auto simp: row_get_update_other split: sum.splits)

lemma get_col_set_col_same:
  "length xs = length (rows df) \<Longrightarrow> get_col (set_col df c xs) c = Inr xs"
  by (simp add: get_col_def set_col_def cells_of_set_rows_same)

lemma get_col_set_col_other:
  "length xs = length (rows df) \<Longrightarrow> c \<noteq> col \<Longrightarrow> get_col (set_col df c xs) col = get_col df col"
  by (auto simp: get_col_def set_col_def cells_of_set_rows_other)

lemma normalize_column_other:
  assumes "normalize_column lib df c = Inr df'" and "c \<noteq> col"
  shows "get_col df' col = get_col df col"
proof -
  from assms(1) obtain cs xs where cs: "get_col df c = Inr cs"
    and xs: "traverse (normalize_coordinate lib) cs = Inr xs" and df': "df' = set_col df c xs"
    by (auto simp: normalize_column_def split: sum.splits)
  have "length xs = length (rows df)"
    using cs xs by (simp add: traverse_length get_col_length)
  then show ?thesis
    using df' assms(2) by (simp add: get_col_set_col_other)
qed

lemma parse_dates_column:
  assumes "parse_dates lib df = Inr d"
  shows "\<exists>cs. get_col df ''Data'' = Inr cs \<and> get_col d ''Data'' = Inr (map (coerce_datetime lib) cs)"
proof -
  from assms obtain cs where cs: "get_col df ''Data'' = Inr cs"
    and d: "d = set_col df ''Data'' (map (coerce_datetime lib) cs)"
    by (auto simp: parse_dates_def split: sum.splits)
  have "length (map (coerce_datetime lib) cs) = length (rows df)"
    using cs by (simp add: get_col_length)
  then show ?thesis using cs d get_col_set_col_same by metis
qed

text \<open>
  Claim C7, as the code has it: when the table has a column Data and is loaded, no message
  is issued and each entry of the column has gone through the coercion, which turns an
  entry that cannot be parsed into a missing value. The one message about dates is the
  first message of a table without the column.
\<close>

theorem unparsable_dates_coerced_silently:
  "(''Data'' \<in> set (columns df) \<and> load_data lib (Inr df) = (msgs, Some df')
      \<longrightarrow> msgs = []
          \<and> (\<exists>cs. get_col df ''Data'' = Inr cs
                \<and> get_col df' ''Data'' = Inr (map (coerce_datetime lib) cs)))
   \<and> (to_datetime lib c = None \<longrightarrow> coerce_datetime lib c = Null)
   \<and> (''Data'' \<notin> set (columns df)
      \<longrightarrow> take 1 (fst (load_data lib (Inr df))) = [Err_data_column_missing])"
proof (intro conjI impI)
  assume a: "''Data'' \<in> set (columns df) \<and> load_data lib (Inr df) = (msgs, Some df')"
  then obtain d df2 where d: "parse_dates lib df = Inr d"
    and x: "normalize_column lib d ''POINT_X'' = Inr df2"
    and y: "normalize_column lib df2 ''POINT_Y'' = Inr df'"
    and m: "msgs = []"
    by (auto simp: load_data_def split: sum.splits)
  show "msgs = []" by (rule m)
  have "get_col df' ''Data'' = get_col d ''Data''"
    using normalize_column_other [OF x, of "''Data''"] normalize_column_other [OF y, of "''Data''"]
    by simp
  then show "\<exists>cs. get_col df ''Data'' = Inr cs
                \<and> get_col df' ''Data'' = Inr (map (coerce_datetime lib) cs)"
    using parse_dates_column [OF d] by simp
next
  assume "to_datetime lib c = None"
  then show "coerce_datetime lib c = Null" by (simp add: coerce_datetime_def)
next
  assume "''Data'' \<notin> set (columns df)"
  then show "take 1 (fst (load_data lib (Inr df))) = [Err_data_column_missing]"
    by (simp add: load_data_def split: sum.splits)
qed

lemma sample_float_coordinates:
  "sample_float ''680000.5'' = Some (1360001 / 2)"
  "sample_float ''7460000.2'' = Some (37300001 / 5)"
  "sample_float ''681000.0'' = Some 681000"
  "sample_float ''7461000.0'' = Some 7461000"
  "sample_float ''682000'' = Some 682000"
  "sample_float ''7462000'' = Some 7462000"
  by (simp_all add: sample_float_def is_digit_def digits_value_def digit_value_def)

lemma sample_dates:
  "sample_date ''2023-01-05'' = Some 20230105"
  "sample_date ''sem data'' = None"
  "sample_date ''2023-01-06'' = Some 20230106"
  by (simp_all add: sample_date_def is_digit_def digits_value_def digit_value_def)

lemma sample_loaded: "load_data sample_library (Inr sample_table) = ([], Some loaded_table)"
  by (simp add: load_data_def sample_table_def parse_dates_def get_col_def row_get_def
      set_col_def coerce_datetime_def sample_library_def sample_to_datetime_def sample_dates
      normalize_column_def normalize_coordinate_def astype_float_def str_replace_comma_def
      sample_float_coordinates loaded_table_def)

text \<open>
  Claim C7 as stated fails: the second date of the sample table cannot be parsed; the table is
  loaded with a missing value in its place and no message.
\<close>

theorem unparsable_date_counterexample:
  "to_datetime sample_library (Str ''sem data'') = None
   \<and> load_data sample_library (Inr sample_table) = ([], Some loaded_table)
   \<and> get_col loaded_table ''Data'' = Inr [Time 20230105, Null, Time 20230106]"
  using sample_loaded
  by (simp add: sample_library_def sample_to_datetime_def sample_dates loaded_table_def
      get_col_def row_get_def)

text \<open>The table without a date column.\<close>

lemma comma_table_load: "fst (load_data sample_library (Inr comma_table)) = [Err_data_column_missing, Err_read_excel ValueError]"
  by (simp add: load_data_def comma_table_def normalize_column_def get_col_def row_get_def
     normalize_coordinate_def astype_float_def str_replace_comma_def sample_library_def sample_float_def Let_def)

text \<open>On the sample table, and on the table without a date column.\<close>

theorem unparsable_dates_coerced_silently_witness:
  "''Data'' \<in> set (columns sample_table)
   \<and> load_data sample_library (Inr sample_table) = ([], Some loaded_table)
   \<and> get_col sample_table ''Data'' = Inr [Str ''2023-01-05'', Str ''sem data'', Str ''2023-01-06'']
   \<and> get_col loaded_table ''Data''
       = Inr (map (coerce_datetime sample_library)
               [Str ''2023-01-05'', Str ''sem data'', Str ''2023-01-06''])
   \<and> to_datetime sample_library (Str ''sem data'') = None
   \<and> coerce_datetime sample_library (Str ''sem data'') = Null
   \<and> ''Data'' \<notin> set (columns comma_table)
   \<and> take 1 (fst (load_data sample_library (Inr comma_table))) = [Err_data_column_missing]"
proof -
  have a: "''Data'' \<in> set (columns sample_table)" by (simp add: sample_table_def)
  have b: "to_datetime sample_library (Str ''sem data'') = None"
    by (simp add: sample_library_def sample_to_datetime_def sample_dates)
  have c: "''Data'' \<notin> set (columns comma_table)" by (simp add: comma_table_def)
  show ?thesis
    using a b c sample_loaded sample_data
      unparsable_dates_coerced_silently
        [of sample_table sample_library "[]" loaded_table "Str ''sem data''"]
      unparsable_dates_coerced_silently
        [of comma_table sample_library "[]" loaded_table "Str ''sem data''"]
    by simp
qed

section \<open>A run of the script on the sample table\<close>

lemma sample_projected: "convert_utm_to_latlon sample_library loaded_table = Inr projected_table"
  by (simp add: convert_utm_to_latlon_def loaded_table_def project_row_def row_get_def
      sample_library_def set_col_def projected_table_def)

lemma sample_display:
  "drop_columns projected_table [''POINT_X'', ''POINT_Y'', ''Longitude'', ''Latitude'']
     = Inr display_table"
  by (simp add: drop_columns_def projected_table_def display_table_def)

lemma sample_filters:
  "filter_for (sample_sidebar legend) display_table ''Tipo'' = Inr (''Tipo'', [Str ''A''])"
  by (simp add: filter_for_def display_table_def get_col_def row_get_def unique_def
      sample_sidebar_def)

lemma sample_filtered:
  "apply_attribute_filters display_table [(''Tipo'', [Str ''A''])]
     = Inr (display_table\<lparr>rows := take 2 (rows display_table)\<rparr>)"
  by (simp add: display_table_def get_col_def row_get_def unique_def isin_def boolean_index_def)

lemma sample_colors:
  "pick_colors (sample_sidebar legend) (display_table\<lparr>rows := take 2 (rows display_table)\<rparr>)
     (Some ''Tipo'') = Inr [(Str ''A'', ''#3388ff'')]"
  by (simp add: pick_colors_def display_table_def get_col_def row_get_def unique_def
      sample_sidebar_def)

lemma sample_geojson:
  "convert_to_geojson sample_library projected_table
     = ([], Some (''output.geojson'', projected_table))"
  by (simp add: convert_to_geojson_def sample_library_def projected_table_def)

lemma sample_center:
  "map_center sample_library projected_table
     = Inr (Flt (- (38084999 / 1500000)), Flt (- (31913999 / 600000)))"
  by (simp add: map_center_def projected_table_def get_col_def row_get_def sample_library_def
      sample_mean_def)

lemma sample_valid_location: "validate_location sample_library (Flt x) (Flt y) = None"
  by (simp add: validate_location_def sample_library_def)

lemma sample_markers:
  "marker_layers sample_library projected_table (Some ''Tipo'') [(Str ''A'', ''#3388ff'')]
     = Inl KeyError"
  by (simp add: marker_layers_def truthy_def projected_table_def circle_marker_def row_get_def
      row_get_key_def dict_index_def sample_valid_location)

lemma sample_heat_layer: "heat_layer sample_library projected_table True = Inr [sample_heat]"
  by (simp add: heat_layer_def projected_table_def heat_point_def row_get_def sample_heat_def
      sample_valid_location)

lemma sample_isoformats:
  "sample_isoformat 20230105 = ''2023-01-05T00:00:00''"
  "sample_isoformat 20230106 = ''2023-01-06T00:00:00''"
  by (simp_all add: sample_isoformat_def digit_char_def Let_def)

lemma sample_time_layer_none:
  "time_layer sample_library projected_table None [] True
     = Inr ([], [Timestamped_geojson (sample_features ''blue'' (Str []) (Str []))])"
  by (simp add: time_layer_def projected_table_def time_feature_def row_get_def truthy_def
      cell_isoformat_def sample_library_def sample_isoformats sample_features_def)

lemma sample_time_layer_tipo:
  "time_layer sample_library projected_table (Some ''Tipo'') [(Str ''A'', ''#3388ff'')] True
     = Inr ([], [Timestamped_geojson (sample_features ''#3388ff'' (Str ''A'') (Str ''B''))])"
  by (simp add: time_layer_def projected_table_def time_feature_def row_get_def truthy_def
      row_get_key_def dict_get_def
      cell_isoformat_def sample_library_def sample_isoformats sample_features_def)

lemma sample_create_map_tipo:
  "create_map sample_library projected_table ''OpenStreetMap'' (Inr ''logo'') (Some ''Tipo'')
     [(Str ''A'', ''#3388ff'')] True True = ([], Inl KeyError)"
  by (simp add: create_map_def sample_center sample_valid_location sample_heat_layer
      sample_time_layer_tipo sample_markers)

lemma sample_create_map_none:
  "create_map sample_library projected_table ''OpenStreetMap'' (Inr ''logo'') None [] True True
     = ([], Inr sample_scene)"
  by (simp add: create_map_def sample_center sample_valid_location sample_heat_layer
      sample_time_layer_none marker_layers_def truthy_def basemap_name_def sample_scene_def)

lemma sample_sidebar_fields:
  "filter_columns_chosen (sample_sidebar legend) = [''Tipo'']"
  "legend_chosen (sample_sidebar legend) = legend"
  "basemap_chosen (sample_sidebar legend) = ''OpenStreetMap''"
  "heatmap_checked (sample_sidebar legend) = True"
  "time_series_checked (sample_sidebar legend) = True"
  "save_pressed (sample_sidebar legend) = False"
  by (simp_all add: sample_sidebar_def)

lemma display_columns: "columns display_table = [''Data'', ''Tipo'']"
  by (simp add: display_table_def)

lemma sample_script_tipo:
  "script sample_library (Inr ''logo'') (Inr sample_table) (sample_sidebar (Some ''Tipo''))
     = Inl KeyError"
  by (simp add: script_def sample_loaded sample_projected sample_display display_columns
      sample_sidebar_fields sample_filters sample_filtered sample_colors compose_def
      sample_geojson sample_create_map_tipo del: apply_attribute_filters.simps)

lemma sample_script_none:
  "script sample_library (Inr ''logo'') (Inr sample_table) (sample_sidebar None)
     = Inr \<lparr>messages = [Write_loaded], table = Some projected_table,
            filtered = Some (display_table\<lparr>rows := take 2 (rows display_table)\<rparr>),
            scene = Some (sample_scene\<lparr>layers := layers sample_scene @ [Geojson projected_table]\<rparr>),
            charts = None\<rparr>"
  by (simp add: script_def sample_loaded sample_projected sample_display display_columns
      sample_sidebar_fields sample_filters sample_filtered pick_colors_def compose_def
      sample_geojson sample_create_map_none del: apply_attribute_filters.simps)

text \<open>
  Claim C2 fails in the code. With the colour map \<open>{A: #3388ff}\<close> and a row of Tipo B, the
  lookup of the time-aware layer falls back to blue and the one of the charts to #1f77b4,
  but the lookup of the marker layer raises KeyError and \<open>create_map\<close> returns no map. The
  script reaches this on the sample table when Tipo is filtered to A and chosen as legend
  column: the colours are picked for the filtered table, the markers are drawn for the whole
  table.
\<close>

theorem marker_lookup_raises:
  "dict_get [(Str ''A'', ''#3388ff'')] (Str ''B'' :: real cell) ''blue'' = ''blue''
   \<and> dict_get [(Str ''A'', ''#3388ff'')] (Str ''B'' :: real cell) ''#1f77b4'' = ''#1f77b4''
   \<and> dict_index [(Str ''A'', ''#3388ff'')] (Str ''B'' :: real cell) = Inl KeyError
   \<and> create_map sample_library projected_table ''OpenStreetMap'' (Inr ''logo'') (Some ''Tipo'')
        [(Str ''A'', ''#3388ff'')] True True = ([], Inl KeyError)
   \<and> script sample_library (Inr ''logo'') (Inr sample_table) (sample_sidebar (Some ''Tipo''))
       = Inl KeyError"
  by (simp add: dict_get_def dict_index_def sample_create_map_tipo sample_script_tipo)

section \<open>The time-aware layer\<close>

lemma traverse_image:
  "traverse f xs = Inr ys \<Longrightarrow> y \<in> set ys \<Longrightarrow> \<exists>x \<in> set xs. f x = Inr y"
  by (induction xs arbitrary: ys) (auto split: sum.splits)

lemma circle_marker_layer:
  "circle_marker lib lc cm r = Inr l \<Longrightarrow> layer_features l = [] \<and> layer_rows l = []"
  by (auto simp: circle_marker_def layer_features_def layer_rows_def
      split: sum.splits option.splits)

lemma concat_map_nil: "(\<And>x. x \<in> set xs \<Longrightarrow> f x = []) \<Longrightarrow> concat (map f xs) = []"
  by (induction xs) auto

lemma marker_layers_observed:
  assumes "marker_layers lib gdf lc cm = Inr ms"
  shows "concat (map layer_features ms) = [] \<and> concat (map layer_rows ms) = []"
proof (cases "truthy lc \<and> cm \<noteq> []")
  case False
  then show ?thesis using assms by (auto simp: marker_layers_def)
next
  case True
  then obtain cs where cs: "traverse (circle_marker lib lc cm) (rows gdf) = Inr cs"
    and ms: "ms = cs @ [Legend cm]"
    using assms by (auto simp: marker_layers_def split: sum.splits)
  have "\<And>l. l \<in> set cs \<Longrightarrow> layer_features l = [] \<and> layer_rows l = []"
    using traverse_image [OF cs] circle_marker_layer by blast
  then have "concat (map layer_features cs) = []" "concat (map layer_rows cs) = []"
    by (simp_all add: concat_map_nil)
  then show ?thesis using ms by (simp add: layer_features_def layer_rows_def)
qed

lemma heat_layer_observed:
  "heat_layer lib gdf h = Inr hs \<Longrightarrow>
     concat (map layer_features hs) = [] \<and> concat (map layer_rows hs) = []"
  by (auto simp: heat_layer_def layer_features_def layer_rows_def split: if_splits sum.splits)

lemma time_feature_dated:
  "time_feature lib lc cm r = Inr fo \<Longrightarrow>
     (case fo of None \<Rightarrow> \<not> has_timestamp lib r
      | Some f \<Rightarrow> has_timestamp lib r \<and> feature_from_row lib f r)"
  by (auto simp: time_feature_def has_timestamp_def feature_from_row_def cell_isoformat_def
      split: sum.splits if_splits cell.splits)

lemma time_features_dated:
  "time_features lib lc cm rs = Inr fs \<Longrightarrow>
     list_all2 (feature_from_row lib) fs (filter (has_timestamp lib) rs)"
proof (induction rs arbitrary: fs)
  case Nil
  then show ?case by simp
next
  case (Cons r rs)
  from Cons.prems obtain fo fs' where fo: "time_feature lib lc cm r = Inr fo"
    and fs': "time_features lib lc cm rs = Inr fs'"
    and fs: "fs = (case fo of None \<Rightarrow> fs' | Some f \<Rightarrow> f # fs')"
    by (auto split: sum.splits)
  have ih: "list_all2 (feature_from_row lib) fs' (filter (has_timestamp lib) rs)"
    using Cons.IH fs' by simp
  show ?case
    using time_feature_dated [OF fo] ih fs by (cases fo) auto
qed

lemma time_layer_observed:
  assumes "time_layer lib gdf lc cm True = Inr (msgs, tls)" and "''Data'' \<in> set (columns gdf)"
  shows "list_all2 (feature_from_row lib) (concat (map layer_features tls))
           (filter (has_timestamp lib) (rows gdf))
         \<and> concat (map layer_rows tls) = []"
proof -
  from assms obtain fs where fs: "time_features lib lc cm (rows gdf) = Inr fs"
    and tls: "tls = (if fs \<noteq> [] then [Timestamped_geojson fs] else [])"
    by (auto simp: time_layer_def split: sum.splits if_splits)
  have "concat (map layer_features tls) = fs"
    using tls by (simp add: layer_features_def)
  moreover have "concat (map layer_rows tls) = []"
    using tls by (simp add: layer_rows_def)
  ultimately show ?thesis using time_features_dated [OF fs] by simp
qed

lemma create_map_observed:
  assumes "create_map lib gdf b logo lc cm h True = (msgs, Inr m)" and "''Data'' \<in> set (columns gdf)"
  shows "list_all2 (feature_from_row lib) (time_features_of m)
           (filter (has_timestamp lib) (rows gdf))
         \<and> base_features_of m = []"
proof -
  from assms(1) obtain c img hs tls ms where hs: "heat_layer lib gdf h = Inr hs"
    and tls: "time_layer lib gdf lc cm True = Inr (msgs, tls)"
    and ms: "marker_layers lib gdf lc cm = Inr ms"
    and m: "m = \<lparr>center = c, layers = [Basemap (basemap_name b), Logo img, Locate_control]
                                @ hs @ tls @ ms\<rparr>"
    by (auto simp: create_map_def split: sum.splits prod.splits option.splits)
  have hf: "concat (map layer_features hs) = []" and hr: "concat (map layer_rows hs) = []"
    using heat_layer_observed [OF hs] by simp_all
  have mf: "concat (map layer_features ms) = []" and mr: "concat (map layer_rows ms) = []"
    using marker_layers_observed [OF ms] by simp_all
  have tf: "list_all2 (feature_from_row lib) (concat (map layer_features tls))
              (filter (has_timestamp lib) (rows gdf))"
    and tr: "concat (map layer_rows tls) = []"
    using time_layer_observed [OF tls assms(2)] by simp_all
  have "time_features_of m = concat (map layer_features tls)"
    by (simp add: m time_features_of_def hf mf) (simp add: layer_features_def)
  moreover have "base_features_of m = []"
    by (simp add: m base_features_of_def hr tr mr) (simp add: layer_rows_def)
  ultimately show ?thesis using tf by simp
qed

lemma compose_scene:
  assumes "compose lib logo ui msgs df dff lc cm = Inr out" and "scene out = Some m"
  shows "\<exists>msgs2 m0. create_map lib df (basemap_chosen ui) logo lc cm (heatmap_checked ui)
            (time_series_checked ui) = (msgs2, Inr m0)
          \<and> m = m0\<lparr>layers := layers m0 @ [Geojson df]\<rparr> \<and> table out = Some df"
  using assms
  by (auto simp: compose_def convert_to_geojson_def
      split: prod.splits option.splits sum.splits if_splits)

lemma script_scene:
  assumes "script lib logo excel ui = Inr out" and "scene out = Some m"
  shows "\<exists>msgs df dff lc cm. compose lib logo ui msgs df dff lc cm = Inr out"
  using assms
  by (auto simp: script_def Let_def split: prod.splits option.splits sum.splits if_splits)
    blast+

text \<open>
  When the script shows a map, the time series is requested and the table handed to the
  composer has a column Data, the time features are those of the rows of that table with a
  timestamp, one for each in order, and all its rows are the general feature set of the map.
\<close>

lemma time_features_of_composed_table:
  assumes "script lib logo excel ui = Inr out" and "scene out = Some m"
    and "table out = Some df"
    and "time_series_checked ui" and "''Data'' \<in> set (columns df)"
  shows "length (time_features_of m) = length (filter (has_timestamp lib) (rows df))
         \<and> list_all2 (feature_from_row lib) (time_features_of m)
             (filter (has_timestamp lib) (rows df))
         \<and> base_features_of m = rows df"
proof -
  from script_scene [OF assms(1,2)] obtain msgs d dff lc cm
    where c: "compose lib logo ui msgs d dff lc cm = Inr out" by blast
  from compose_scene [OF c assms(2)] obtain msgs2 m0
    where cm: "create_map lib d (basemap_chosen ui) logo lc cm (heatmap_checked ui)
            (time_series_checked ui) = (msgs2, Inr m0)"
      and m: "m = m0\<lparr>layers := layers m0 @ [Geojson d]\<rparr>" and t: "table out = Some d"
    by blast
  have d: "d = df" using t assms(3) by simp
  have obs: "list_all2 (feature_from_row lib) (time_features_of m0)
               (filter (has_timestamp lib) (rows df))"
    and base: "base_features_of m0 = []"
    using create_map_observed [of lib df _ logo lc cm _ msgs2 m0] cm assms(4,5) d by auto
  have "time_features_of m = time_features_of m0"
    using m by (simp add: time_features_of_def layer_features_def)
  moreover have "base_features_of m = rows df"
    using m base d by (simp add: base_features_of_def layer_rows_def)
  ultimately show ?thesis
    using obs list_all2_lengthD by fastforce
qed

text \<open>The table handed to the composer is the loaded table, projected, before any filter.\<close>

lemma script_loaded:
  assumes "script lib logo excel ui = Inr out" and "scene out = Some m"
  shows "\<exists>msgs0 df0 df msgs dff lc cm.
           load_data lib excel = (msgs0, Some df0) \<and> convert_utm_to_latlon lib df0 = Inr df
           \<and> compose lib logo ui msgs df dff lc cm = Inr out"
  using assms
  by (auto simp: script_def Let_def split: prod.splits option.splits sum.splits if_splits)

lemma time_features_of_loaded_table:
  assumes "script lib logo excel ui = Inr out" and "scene out = Some m"
    and "time_series_checked ui"
  shows "\<exists>msgs0 df0 df.
           load_data lib excel = (msgs0, Some df0) \<and> convert_utm_to_latlon lib df0 = Inr df
           \<and> table out = Some df \<and> base_features_of m = rows df
           \<and> (''Data'' \<in> set (columns df) \<longrightarrow>
                list_all2 (feature_from_row lib) (time_features_of m)
                  (filter (has_timestamp lib) (rows df)))"
proof -
  from script_loaded [OF assms(1,2)] obtain msgs0 df0 df msgs dff lc cm
    where l: "load_data lib excel = (msgs0, Some df0)"
      and p: "convert_utm_to_latlon lib df0 = Inr df"
      and c: "compose lib logo ui msgs df dff lc cm = Inr out" by blast
  from compose_scene [OF c assms(2)] have t: "table out = Some df" by blast
  have "''Data'' \<in> set (columns df) \<longrightarrow>
          list_all2 (feature_from_row lib) (time_features_of m)
            (filter (has_timestamp lib) (rows df))"
    using time_features_of_composed_table [OF assms(1,2) t assms(3)] by simp
  moreover have "base_features_of m = rows df"
  proof -
    from compose_scene [OF c assms(2)] obtain msgs2 m0
      where cm: "create_map lib df (basemap_chosen ui) logo lc cm (heatmap_checked ui)
            (time_series_checked ui) = (msgs2, Inr m0)"
        and m: "m = m0\<lparr>layers := layers m0 @ [Geojson df]\<rparr>" by blast
    from cm obtain c img hs tls ms where hs: "heat_layer lib df (heatmap_checked ui) = Inr hs"
      and tls: "time_layer lib df lc cm (time_series_checked ui) = Inr (msgs2, tls)"
      and ms: "marker_layers lib df lc cm = Inr ms"
      and m0: "m0 = \<lparr>center = c, layers = [Basemap (basemap_name (basemap_chosen ui)), Logo img,
                                            Locate_control] @ hs @ tls @ ms\<rparr>"
      by (auto simp: create_map_def split: sum.splits prod.splits option.splits)
    have hr: "concat (map layer_rows hs) = []"
      using heat_layer_observed [OF hs] by simp
    have mr: "concat (map layer_rows ms) = []"
      using marker_layers_observed [OF ms] by simp
    have tr: "concat (map layer_rows tls) = []"
      using tls by (auto simp: time_layer_def layer_rows_def split: if_splits sum.splits)
    show ?thesis
      by (simp add: m m0 base_features_of_def hr tr mr) (simp add: layer_rows_def)
  qed
  ultimately show ?thesis using l p t by blast
qed

section \<open>A table without rows\<close>

text \<open>
  \<open>create_map\<close> itself, on a frame without rows: the mean of no entry is NaN, and the
  map cannot be created at such a centre.
\<close>

lemma create_map_empty_frame:
  assumes "rows gdf = []" and "''Latitude'' \<in> set (columns gdf)"
    and "''Longitude'' \<in> set (columns gdf)" and "series_mean lib [] = Inr Null"
  shows "create_map lib gdf b logo lc cm h ts = ([], Inl ValueError)"
  using assms by (simp add: create_map_def map_center_def get_col_def validate_location_def)

lemma sample_mean_empty: "series_mean sample_library [] = Inr Null"
  by (simp add: sample_library_def sample_mean_def)


lemma frame_rows_empty: "rows df = [] \<Longrightarrow> \<lparr>columns = columns df, rows = []\<rparr> = (df :: 'f frame)"
  by (cases df) simp

lemma get_col_empty:
  "rows df = [] \<Longrightarrow> c \<in> set (columns df) \<Longrightarrow> get_col df c = Inr []"
  by (simp add: get_col_def)

lemma normalize_column_empty:
  "rows df = [] \<Longrightarrow>
     normalize_column lib df c = (if c \<in> set (columns df) then Inr df else Inl KeyError)"
  by (simp add: normalize_column_def get_col_def set_col_def frame_rows_empty)

lemma parse_dates_empty:
  "rows df = [] \<Longrightarrow> ''Data'' \<in> set (columns df) \<Longrightarrow> parse_dates lib df = Inr df"
  by (simp add: parse_dates_def get_col_def set_col_def frame_rows_empty)

lemma load_data_empty:
  assumes "rows df = []"
  shows "load_data lib (Inr df) =
           (if ''POINT_X'' \<in> set (columns df) \<and> ''POINT_Y'' \<in> set (columns df)
            then ((if ''Data'' \<in> set (columns df) then [] else [Err_data_column_missing]), Some df)
            else ((if ''Data'' \<in> set (columns df) then [] else [Err_data_column_missing])
                    @ [Err_read_excel KeyError], None))"
  using assms by (simp add: load_data_def parse_dates_empty normalize_column_empty)

lemma convert_utm_empty:
  assumes "rows df = []" and "''POINT_X'' \<in> set (columns df)" and "''POINT_Y'' \<in> set (columns df)"
  shows "\<exists>d. convert_utm_to_latlon lib df = Inr d \<and> rows d = []
           \<and> set (columns d) = set (columns df) \<union> {''Longitude'', ''Latitude''}"
  using assms by (auto simp: convert_utm_to_latlon_def set_col_def)

lemma drop_columns_empty:
  assumes "rows d = []" and "set cols \<subseteq> set (columns d)"
  shows "\<exists>dd. drop_columns d cols = Inr dd \<and> rows dd = []"
  using assms by (simp add: drop_columns_def)

lemma traverse_filter_for_empty:
  assumes "rows dd = []" and "set fc \<subseteq> set (columns dd)"
  shows "traverse (filter_for ui dd) fc = Inr (map (\<lambda>c. (c, [])) fc)"
  using assms(2)
  by (induction fc) (simp_all add: filter_for_def get_col_empty [OF assms(1)] unique_def)

lemma apply_empty_lists: "apply_attribute_filters d (map (\<lambda>c. (c, [])) fc) = Inr d"
  by (induction fc) simp_all

lemma pick_colors_empty:
  assumes "rows dd = []" and "lc = None \<or> (\<exists>c. lc = Some c \<and> c \<in> set (columns dd))"
  shows "pick_colors ui dd lc = Inr []"
  using assms by (auto simp: pick_colors_def get_col_empty unique_def)

lemma compose_empty:
  assumes "rows d = []" and "''Longitude'' \<in> set (columns d)" and "''Latitude'' \<in> set (columns d)"
  shows "\<exists>out m1. compose lib logo ui msgs d dff lc cm = Inr out \<and> scene out = None
           \<and> messages out = msgs @ [m1, Err_geojson_failed]
           \<and> (m1 = Err_geodataframe_empty \<or> (\<exists>e. m1 = Err_convert_geojson e))"
  using assms by (cases "geodataframe lib d") (simp_all add: compose_def convert_to_geojson_def)

text \<open>
  Claim C5, as the code has it. For a table without rows the script raises nothing and shows
  no map at all, whatever layers are requested: the load fails, or no filter column is
  selected, or the conversion to GeoJSON fails, and the last message says which; in the last
  case the empty GeoDataFrame, or the exception of geopandas, is reported before it.
\<close>

theorem empty_table_no_scene:
  assumes "rows df = []"
  shows "\<exists>out. script lib (Inr img) (Inr df) ui = Inr out \<and> scene out = None
           \<and> messages out \<noteq> []
           \<and> (last (messages out) = Err_load_failed
               \<or> last (messages out) = Warn_no_filter_columns
               \<or> (last (messages out) = Err_geojson_failed
                   \<and> (Err_geodataframe_empty \<in> set (messages out)
                       \<or> (\<exists>e. Err_convert_geojson e \<in> set (messages out)))))"
proof (cases "''POINT_X'' \<in> set (columns df) \<and> ''POINT_Y'' \<in> set (columns df)")
  case False
  then obtain msgs where "load_data lib (Inr df) = (msgs, None)"
    using assms by (auto simp: load_data_empty)
  then show ?thesis
    by (simp add: script_def)
next
  case True
  obtain msgs where ld: "load_data lib (Inr df) = (msgs, Some df)"
    using True assms by (simp add: load_data_empty)
  obtain d where d: "convert_utm_to_latlon lib df = Inr d" and rd: "rows d = []"
    and cd: "set (columns d) = set (columns df) \<union> {''Longitude'', ''Latitude''}"
    using convert_utm_empty [OF assms] True by blast
  have "set [''POINT_X'', ''POINT_Y'', ''Longitude'', ''Latitude''] \<subseteq> set (columns d)"
    using cd True by auto
  then obtain dd where dd: "drop_columns d [''POINT_X'', ''POINT_Y'', ''Longitude'', ''Latitude''] = Inr dd"
    and rdd: "rows dd = []"
    using drop_columns_empty [OF rd] by blast
  let ?fc = "filter (\<lambda>c. c \<in> set (columns dd)) (remdups (filter_columns_chosen ui))"
  show ?thesis
  proof (cases "?fc = []")
    case True
    then show ?thesis
      by (simp add: script_def ld d dd)
  next
    case False
    have sub: "set ?fc \<subseteq> set (columns dd)" by auto
    have fl: "traverse (filter_for ui dd) ?fc = Inr (map (\<lambda>c. (c, [])) ?fc)"
      using traverse_filter_for_empty [OF rdd sub] .
    let ?lc = "case legend_chosen ui of None \<Rightarrow> None
               | Some c \<Rightarrow> if c \<in> set ?fc then Some c else None"
    have "?lc = None \<or> (\<exists>c. ?lc = Some c \<and> c \<in> set (columns dd))"
      by (auto split: option.splits)
    then have pc: "pick_colors ui dd ?lc = Inr []"
      using pick_colors_empty [OF rdd] by blast
    have lon: "''Longitude'' \<in> set (columns d)" and lat: "''Latitude'' \<in> set (columns d)"
      using cd by auto
    obtain out m1 where c: "compose lib (Inr img) ui (msgs @ [Write_loaded]) d dd ?lc [] = Inr out"
      and s: "scene out = None"
      and m: "messages out = (msgs @ [Write_loaded]) @ [m1, Err_geojson_failed]"
      and m1: "m1 = Err_geodataframe_empty \<or> (\<exists>e. m1 = Err_convert_geojson e)"
      using compose_empty [OF rd lon lat] by blast
    have "script lib (Inr img) (Inr df) ui = Inr out"
      using False by (simp add: script_def ld d dd fl apply_empty_lists pc c Let_def)
    then show ?thesis using s m m1 by auto
  qed
qed

section \<open>The two runs, observed\<close>

lemma sample_dated_rows:
  "length (filter (has_timestamp sample_library) (rows projected_table)) = 2"
  by (simp add: has_timestamp_def projected_table_def row_get_def sample_library_def)

lemma sample_filtered_dated_rows:
  "length (filter (has_timestamp sample_library)
            (rows (display_table\<lparr>rows := take 2 (rows display_table)\<rparr>))) = 1"
  by (simp add: has_timestamp_def display_table_def row_get_def sample_library_def)

lemma sample_time_features:
  "length (time_features_of (sample_scene\<lparr>layers := layers sample_scene @ [Geojson projected_table]\<rparr>)) = 2"
  by (simp add: time_features_of_def sample_scene_def layer_features_def sample_heat_def
      sample_features_def)

lemma sample_script_run:
  "script sample_library (Inr ''logo'') (Inr sample_table) (sample_sidebar None) = Inr sample_run"
  by (simp add: sample_script_none sample_run_def)

text \<open>
  Claim C3 fails in the code: the script hands to the composer the loaded table and not the
  filtered one. On the sample table with Tipo filtered to A, the filtered table has one row
  with a timestamp and the loaded table two, and the map has two time features. The message
  of line 56 speaks of the filtered data, and the colours, the charts and the table shown
  follow the filter.
\<close>

theorem time_features_ignore_filter:
  "load_data sample_library (Inr sample_table) = ([], Some loaded_table)
   \<and> convert_utm_to_latlon sample_library loaded_table = Inr projected_table
   \<and> script sample_library (Inr ''logo'') (Inr sample_table) (sample_sidebar None) = Inr sample_run
   \<and> time_series_checked (sample_sidebar None)
   \<and> table sample_run = Some projected_table
   \<and> length (filter (has_timestamp sample_library) (rows projected_table)) = 2
   \<and> map_option (\<lambda>d. length (filter (has_timestamp sample_library) (rows d)))
        (filtered sample_run) = Some 1
   \<and> map_option (\<lambda>m. length (time_features_of m)) (scene sample_run) = Some 2
   \<and> map_option base_features_of (scene sample_run) = Some (rows projected_table)"
  using sample_loaded sample_projected sample_script_run sample_time_features
    sample_filtered_dated_rows sample_dated_rows
  by (simp add: sample_run_def sample_sidebar_fields base_features_of_def sample_scene_def
      layer_rows_def sample_heat_def)

text \<open>The run of the script on the table without rows, heat layer requested.\<close>

lemma empty_rows: "rows empty_table = []"
  by (simp add: empty_table_def)

lemma empty_script:
  "script sample_library (Inr ''logo'') (Inr empty_table) (sample_sidebar None)
     = Inr \<lparr>messages = [Write_loaded, Err_geodataframe_empty, Err_geojson_failed],
            table = Some \<lparr>columns = [''POINT_X'', ''POINT_Y'', ''Data'', ''Tipo'', ''Longitude'',
                                     ''Latitude''], rows = []\<rparr>,
            filtered = Some \<lparr>columns = [''Data'', ''Tipo''], rows = []\<rparr>,
            scene = None, charts = None\<rparr>"
  by (simp add: script_def load_data_empty empty_rows)
     (simp add: empty_table_def convert_utm_to_latlon_def set_col_def drop_columns_def
      sample_sidebar_fields filter_for_def get_col_def unique_def sample_sidebar_def
      pick_colors_def compose_def convert_to_geojson_def sample_library_def)

text \<open>
  Claim C5 as stated fails: with the heat layer requested on the table without rows, the
  script reports the empty GeoDataFrame and the failed conversion, and shows no map.
\<close>

theorem empty_table_counterexample:
  "heatmap_checked (sample_sidebar None)
   \<and> rows empty_table = []
   \<and> script sample_library (Inr ''logo'') (Inr empty_table) (sample_sidebar None)
       = Inr \<lparr>messages = [Write_loaded, Err_geodataframe_empty, Err_geojson_failed],
              table = Some \<lparr>columns = [''POINT_X'', ''POINT_Y'', ''Data'', ''Tipo'', ''Longitude'',
                                       ''Latitude''], rows = []\<rparr>,
              filtered = Some \<lparr>columns = [''Data'', ''Tipo''], rows = []\<rparr>,
              scene = None, charts = None\<rparr>"
  using empty_script by (simp add: sample_sidebar_fields empty_rows)

text \<open>On the same run.\<close>

theorem empty_table_no_scene_witness:
  "rows empty_table = []
   \<and> (\<exists>out. script sample_library (Inr ''logo'') (Inr empty_table) (sample_sidebar None) = Inr out
          \<and> scene out = None \<and> last (messages out) = Err_geojson_failed
          \<and> Err_geodataframe_empty \<in> set (messages out))"
  using empty_table_no_scene [OF empty_rows, of sample_library "''logo''" "sample_sidebar None"]
    empty_script empty_rows
  by simp

section \<open>The statistics aggregator\<close>

lemma sum_list_insort_key:
  "sum_list (map g (insort_key f x xs)) = g x + sum_list (map g xs)"
  for g :: "'a \<Rightarrow> 'b::comm_monoid_add"
  by (induction xs) (auto simp: add.left_commute)

lemma sum_list_sort_key:
  "sum_list (map g (sort_key f xs)) = sum_list (map g xs)"
  for g :: "'a \<Rightarrow> 'b::comm_monoid_add"
  by (induction xs) (auto simp: sum_list_insort_key)

lemma set_unique: "set (unique xs) = set xs"
  by (simp add: unique_def)

lemma distinct_unique: "distinct (unique xs)"
  by (simp add: unique_def)

lemma sum_counts_unique: "sum_list (map (count_list xs) (unique xs)) = length xs"
proof -
  have "sum_list (map (count_list xs) (unique xs)) = sum (count_list xs) (set (unique xs))"
    by (rule sum_list_distinct_conv_sum_set) (rule distinct_unique)
  also have "\<dots> = length xs"
    by (simp add: set_unique sum_count_set)
  finally show ?thesis .
qed

lemma value_counts_sum:
  "sum_list (map snd (value_counts lib cs)) = length (filter (notnull lib) cs)"
proof -
  have "sum_list (map snd (value_counts lib cs))
          = sum_list (map snd (map (\<lambda>v. (v, count_list (filter (notnull lib) cs) v))
              (unique (filter (notnull lib) cs))))"
    by (simp add: value_counts_def Let_def sum_list_sort_key)
  also have "\<dots> = sum_list (map (count_list (filter (notnull lib) cs))
                      (unique (filter (notnull lib) cs)))"
    by (simp add: comp_def)
  finally show ?thesis by (simp add: sum_counts_unique)
qed

lemma value_counts_positive:
  assumes "(v, n) \<in> set (value_counts lib cs)"
  shows "0 < n \<and> n \<le> length (filter (notnull lib) cs)"
proof -
  let ?p = "filter (notnull lib) cs"
  from assms have v: "v \<in> set ?p" and n: "n = count_list ?p v"
    by (auto simp: value_counts_def Let_def set_unique)
  have "0 < count_list ?p v" using v by (metis count_list_0_iff gr0I)
  moreover have "count_list ?p v \<le> length ?p" by (rule count_le_length)
  ultimately show ?thesis using n by simp
qed

lemma rounds_within_factor:
  assumes "0 < r" and "rounds_within x r"
  shows "\<exists>f. x = r * f \<and> 1 - 1 / 100000 \<le> f \<and> f \<le> 1 + 1 / 100000"
proof -
  have u: "(1::real) / 2 ^ 53 \<le> 1 / 100000" by simp
  have d: "\<bar>x - r\<bar> \<le> r / 2 ^ 53" using assms(2) by (simp add: rounds_within_def)
  have "r / 2 ^ 53 \<le> r / 100000"
    using assms(1) u by (simp add: field_simps)
  then have b: "\<bar>x - r\<bar> \<le> r / 100000" using d by linarith
  have "\<bar>x / r - 1\<bar> = \<bar>x - r\<bar> / r"
    using assms(1) by (simp add: field_simps abs_if)
  also have "\<dots> \<le> (r / 100000) / r"
    using b assms(1) by (simp add: divide_right_mono)
  also have "\<dots> = 1 / 100000" using assms(1) by simp
  finally have "\<bar>x / r - 1\<bar> \<le> 1 / 100000" .
  then have "1 - 1 / 100000 \<le> x / r \<and> x / r \<le> 1 + 1 / 100000" by linarith
  moreover have "x = r * (x / r)" using assms(1) by simp
  ultimately show ?thesis by blast
qed

lemma two_factors:
  fixes a b :: real
  assumes "l \<le> a" "a \<le> h" "l' \<le> b" "b \<le> h'" "0 \<le> l" "0 \<le> l'"
  shows "l * l' \<le> a * b \<and> a * b \<le> h * h'"
proof -
  have "l * l' \<le> a * b"
    using assms by (intro mult_mono) auto
  moreover have "a * b \<le> h * h'"
    using assms by (intro mult_mono) auto
  ultimately show ?thesis by simp
qed

lemma five_factors:
  fixes fa f1 fc f2 fb :: real
  assumes "1 - 1 / 100000 \<le> fa" "fa \<le> 1 + 1 / 100000"
    and "1 - 1 / 100000 \<le> f1" "f1 \<le> 1 + 1 / 100000"
    and "1 - 1 / 100000 \<le> fc" "fc \<le> 1 + 1 / 100000"
    and "1 - 1 / 100000 \<le> f2" "f2 \<le> 1 + 1 / 100000"
    and "1 - 1 / 100000 \<le> fb" "fb \<le> 1 + 1 / 100000"
  shows "1 - 1 / 10000 \<le> fa * f1 * fc * f2 / fb \<and> fa * f1 * fc * f2 / fb \<le> 1 + 1 / 10000"
proof -
  let ?l = "1 - 1 / 100000 :: real" and ?h = "1 + 1 / 100000 :: real"
  have p2: "?l * ?l \<le> fa * f1 \<and> fa * f1 \<le> ?h * ?h"
    using assms(1-4) by (intro two_factors) auto
  have p3: "?l * ?l * ?l \<le> fa * f1 * fc \<and> fa * f1 * fc \<le> ?h * ?h * ?h"
    using p2 assms(5,6) by (intro two_factors) auto
  have p4: "?l * ?l * ?l * ?l \<le> fa * f1 * fc * f2 \<and> fa * f1 * fc * f2 \<le> ?h * ?h * ?h * ?h"
    using p3 assms(7,8) by (intro two_factors) auto
  have fb: "0 < fb" using assms(9) by simp
  have lo: "?l * ?l * ?l * ?l / ?h \<le> fa * f1 * fc * f2 / fb"
    using p4 assms(10) fb by (intro frac_le) auto
  have hi: "fa * f1 * fc * f2 / fb \<le> ?h * ?h * ?h * ?h / ?l"
    using p4 assms(9) by (intro frac_le) auto
  have "1 - 1 / 10000 \<le> ?l * ?l * ?l * ?l / ?h" by simp
  moreover have "?h * ?h * ?h * ?h / ?l \<le> 1 + 1 / 10000" by simp
  ultimately show ?thesis using lo hi by linarith
qed

lemma percentage_close:
  assumes m: "binary64_model val lib" and n: "0 < n" "n \<le> T" and T: "T < 2 ^ 63"
  shows "\<exists>f. val (percentage lib n T) = (100 * real n / real T) * f
           \<and> 1 - 1 / 10000 \<le> f \<and> f \<le> 1 + 1 / 10000"
proof -
  let ?l = "1 - 1 / 100000 :: real" and ?h = "1 + 1 / 100000 :: real"
  let ?a = "float_of_int lib (int n)" and ?b = "float_of_int lib (int T)"
  let ?c = "float_of_int lib 100"
  have Tpos: "0 < T" using n by simp
  have conv: "rounds_within (val (float_of_int lib k)) (real_of_int k)"
    if "0 < k" "k < 2 ^ 63" for k
    using m that by (simp add: binary64_model_def)
  have "int n < 2 ^ 63" "int T < 2 ^ 63"
    using n T by (simp_all add: nat_less_as_int [symmetric])
  then have ra: "rounds_within (val ?a) (real n)" and rb: "rounds_within (val ?b) (real T)"
    using conv [of "int n"] conv [of "int T"] n Tpos by simp_all
  have rc: "rounds_within (val ?c) 100"
    using conv [of 100] by simp
  obtain fa where fa: "val ?a = real n * fa" "?l \<le> fa" "fa \<le> ?h"
    using rounds_within_factor [OF _ ra] n by auto
  obtain fb where fb: "val ?b = real T * fb" "?l \<le> fb" "fb \<le> ?h"
    using rounds_within_factor [OF _ rb] Tpos by auto
  obtain fc where fc: "val ?c = 100 * fc" "?l \<le> fc" "fc \<le> ?h"
    using rounds_within_factor [OF _ rc] by auto
  have apos: "0 < val ?a" and bpos: "0 < val ?b" and cpos: "0 < val ?c"
    using fa fb fc n Tpos by simp_all
  let ?w = "real n / real T"
  have w: "1 / 2 ^ 63 \<le> ?w" "?w \<le> 1" "0 < ?w"
  proof -
    have "real T \<le> 2 ^ 63" using T by (metis less_imp_le of_nat_le_iff of_nat_numeral of_nat_power)
    moreover have "1 \<le> real n" using n by simp
    ultimately show "1 / 2 ^ 63 \<le> ?w" using Tpos by (intro frac_le) auto
    show "?w \<le> 1" using n Tpos by simp
    show "0 < ?w" using n Tpos by simp
  qed
  have ab: "val ?a / val ?b = ?w * (fa / fb)"
    using fa fb by simp
  have r: "1 / 2 \<le> fa / fb" "fa / fb \<le> 2"
  proof -
    have "?l / ?h \<le> fa / fb" using fa fb by (intro frac_le) auto
    moreover have "(1::real) / 2 \<le> ?l / ?h" by simp
    ultimately show "1 / 2 \<le> fa / fb" by linarith
    have "fa / fb \<le> ?h / ?l" using fa fb by (intro frac_le) auto
    moreover have "?h / ?l \<le> (2::real)" by simp
    ultimately show "fa / fb \<le> 2" by linarith
  qed
  have g1: "1 / 2 ^ 64 \<le> val ?a / val ?b \<and> val ?a / val ?b \<le> 2 ^ 64"
  proof -
    have "(1 / 2 ^ 63) * (1 / 2) \<le> ?w * (fa / fb) \<and> ?w * (fa / fb) \<le> 1 * 2"
      using w r by (intro two_factors) auto
    then show ?thesis using ab by simp
  qed
  let ?q = "truediv lib ?a ?b"
  have rq: "rounds_within (val ?q) (val ?a / val ?b)"
    using m apos bpos g1 by (simp add: binary64_model_def)
  have abpos: "0 < val ?a / val ?b" using apos bpos by simp
  obtain f1 where f1: "val ?q = val ?a / val ?b * f1" "?l \<le> f1" "f1 \<le> ?h"
    using rounds_within_factor [OF abpos rq] by auto
  have f1pos: "0 < f1" using f1(2) by simp
  have qpos: "0 < val ?q"
    unfolding f1(1) by (rule mult_pos_pos [OF abpos f1pos])
  define z where "z = fa / fb * f1 * fc"
  have qc: "val ?q * val ?c = ?w * (z * 100)"
    using f1 fc ab by (simp add: z_def)
  have g2: "1 / 2 ^ 64 \<le> val ?q * val ?c \<and> val ?q * val ?c \<le> 2 ^ 64"
  proof -
    have s1: "(1 / 2) * (1 / 2) \<le> fa / fb * f1 \<and> fa / fb * f1 \<le> 2 * 2"
      using r f1 by (intro two_factors) auto
    have s2: "(1 / 2) * (1 / 2) * (1 / 2) \<le> fa / fb * f1 * fc \<and> fa / fb * f1 * fc \<le> 2 * 2 * 2"
      using s1 fc by (intro two_factors) auto
    have "(1 / 2) * (1 / 2) * (1 / 2) \<le> z \<and> z \<le> 2 * 2 * 2"
      using s2 unfolding z_def .
    then have s3: "1 \<le> z * 100 \<and> z * 100 \<le> 800"
      by simp
    have "(1 / 2 ^ 63) * 1 \<le> ?w * (z * 100) \<and> ?w * (z * 100) \<le> 1 * 800"
      using w s3 by (intro two_factors) auto
    then show ?thesis using qc by simp
  qed
  have rp: "rounds_within (val (multiply lib ?q ?c)) (val ?q * val ?c)"
    using m qpos cpos g2 by (simp add: binary64_model_def)
  have qcpos: "0 < val ?q * val ?c" using qpos cpos by simp
  obtain f2 where f2: "val (multiply lib ?q ?c) = val ?q * val ?c * f2" "?l \<le> f2" "f2 \<le> ?h"
    using rounds_within_factor [OF qcpos rp] by auto
  have fbpos: "fb \<noteq> 0" using fb by simp
  have "val (percentage lib n T) = (100 * real n / real T) * (fa * f1 * fc * f2 / fb)"
    using f2 qc fbpos by (simp add: percentage_def z_def)
  moreover have "1 - 1 / 10000 \<le> fa * f1 * fc * f2 / fb \<and> fa * f1 * fc * f2 / fb \<le> 1 + 1 / 10000"
    using fa f1 fc f2 fb by (intro five_factors) auto
  ultimately show ?thesis by blast
qed

lemma sum_list_close:
  fixes w :: "nat \<Rightarrow> real"
  assumes "\<And>v n. (v, n) \<in> set xs \<Longrightarrow>
             \<exists>f. p n = w n * f \<and> 1 - 1 / 10000 \<le> f \<and> f \<le> 1 + 1 / 10000"
    and "\<And>v n. (v, n) \<in> set xs \<Longrightarrow> 0 \<le> w n"
  shows "\<bar>sum_list (map (\<lambda>(v, n). p n) xs) - sum_list (map (\<lambda>(v, n). w n) xs)\<bar>
           \<le> sum_list (map (\<lambda>(v, n). w n) xs) / 10000"
  using assms
proof (induction xs)
  case Nil
  then show ?case by simp
next
  case (Cons x xs)
  obtain v n where x: "x = (v, n)" by (cases x)
  from Cons.prems(1) [of v n] x obtain f
    where f: "p n = w n * f" "1 - 1 / 10000 \<le> f" "f \<le> 1 + 1 / 10000" by auto
  have wn: "0 \<le> w n" using Cons.prems(2) [of v n] x by simp
  have "\<bar>f - 1\<bar> \<le> 1 / 10000" using f(2,3) by linarith
  then have "w n * \<bar>f - 1\<bar> \<le> w n * (1 / 10000)"
    using wn by (rule mult_left_mono)
  moreover have "\<bar>p n - w n\<bar> = w n * \<bar>f - 1\<bar>"
  proof -
    have "p n - w n = w n * (f - 1)" by (simp add: f(1) algebra_simps)
    then show ?thesis using wn by (simp add: abs_mult)
  qed
  ultimately have one: "\<bar>p n - w n\<bar> \<le> w n / 10000" by simp
  define A where "A = sum_list (map (\<lambda>(v, n). p n) xs)"
  define B where "B = sum_list (map (\<lambda>(v, n). w n) xs)"
  have rest: "\<bar>A - B\<bar> \<le> B / 10000"
    unfolding A_def B_def by (rule Cons.IH) (use Cons.prems in auto)
  have "\<bar>p n + A - (w n + B)\<bar> = \<bar>(p n - w n) + (A - B)\<bar>"
    by (simp add: algebra_simps)
  also have "\<dots> \<le> \<bar>p n - w n\<bar> + \<bar>A - B\<bar>"
    by (rule abs_triangle_ineq)
  also have "\<dots> \<le> w n / 10000 + B / 10000"
    using one rest by (rule add_mono)
  also have "\<dots> = (w n + B) / 10000"
    by (simp add: add_divide_distrib)
  finally have "\<bar>p n + A - (w n + B)\<bar> \<le> (w n + B) / 10000" .
  then show ?case
    by (simp add: x A_def B_def)
qed

lemma sum_list_shares:
  fixes t c :: real
  shows "sum_list (map (\<lambda>(v, n). c * real n / t) xs) = c * real (sum_list (map snd xs)) / t"
  by (induction xs) (auto simp: add_divide_distrib distrib_left)

text \<open>
  When the column has an entry that is not missing, the counts sum to the number of such
  entries and the percentages sum to 100 within 0.01, for any library whose doubles round
  as binary64 does (the table having fewer than \<open>2 ^ 63\<close> rows).
\<close>

lemma percentages_sum_present:
  assumes "binary64_model val lib" and "get_col df column_name = Inr cs"
    and "filter (notnull lib) cs \<noteq> []" and "length cs < 2 ^ 63"
  shows "\<exists>st. create_statistics_chart lib df column_name color_map = Inr st
           \<and> sum_list (contagem st) = length (filter (notnull lib) cs)
           \<and> \<bar>sum_list (map val (percentual st)) - 100\<bar> \<le> 1 / 100"
proof -
  let ?counts = "value_counts lib cs"
  define T where "T = sum_list (map snd ?counts)"
  let ?st = "\<lparr>categoria = map fst ?counts, contagem = map snd ?counts,
              percentual = map (\<lambda>(v, n). percentage lib n T) ?counts,
              colors = map (\<lambda>(v, n). dict_get color_map v ''#1f77b4'') ?counts\<rparr>"
  have st: "create_statistics_chart lib df column_name color_map = Inr ?st"
    using assms(2) by (simp add: create_statistics_chart_def Let_def T_def)
  have T: "T = length (filter (notnull lib) cs)"
    unfolding T_def by (rule value_counts_sum)
  have Tpos: "0 < T" using T assms(3) by simp
  have "length (filter (notnull lib) cs) \<le> length cs" by simp
  then have Tlt: "T < 2 ^ 63" using T assms(4) by linarith
  let ?w = "\<lambda>n. 100 * real n / real T"
  have close: "\<exists>f. val (percentage lib n T) = ?w n * f \<and> 1 - 1 / 10000 \<le> f \<and> f \<le> 1 + 1 / 10000"
    if "(v, n) \<in> set ?counts" for v n
  proof -
    have "0 < n \<and> n \<le> T" using value_counts_positive [OF that] T by simp
    then show ?thesis using percentage_close [OF assms(1) _ _ Tlt] by blast
  qed
  have nonneg: "0 \<le> ?w n" for n by simp
  have e: "\<bar>sum_list (map (\<lambda>(v, n). val (percentage lib n T)) ?counts)
          - sum_list (map (\<lambda>(v, n). ?w n) ?counts)\<bar>
           \<le> sum_list (map (\<lambda>(v, n). ?w n) ?counts) / 10000"
    by (rule sum_list_close) (use close nonneg in blast)+
  have "sum_list (map (\<lambda>(v, n). ?w n) ?counts) = 100 * real T / real T"
    unfolding T_def by (rule sum_list_shares)
  also have "\<dots> = 100" using Tpos by simp
  finally have W: "sum_list (map (\<lambda>(v, n). ?w n) ?counts) = 100" .
  have "map val (percentual ?st) = map (\<lambda>(v, n). val (percentage lib n T)) ?counts"
    by (simp add: comp_def case_prod_unfold)
  then have S: "sum_list (map val (percentual ?st))
                  = sum_list (map (\<lambda>(v, n). val (percentage lib n T)) ?counts)"
    by (rule arg_cong)
  have "\<bar>sum_list (map val (percentual ?st)) - 100\<bar> \<le> 100 / 10000"
    using e unfolding W S .
  then have "\<bar>sum_list (map val (percentual ?st)) - 100\<bar> \<le> 1 / 100"
    by linarith
  moreover have "sum_list (contagem ?st) = length (filter (notnull lib) cs)"
    using T by (simp add: T_def)
  ultimately show ?thesis using st by blast
qed

lemma sample_binary64: "binary64_model (\<lambda>x. x) sample_library"
  by (simp add: binary64_model_def rounds_within_def sample_library_def)

lemma analise_column:
  "get_col analise_table ''Analise'' = Inr [Str ''ok'', Null, Str ''ok'', Str ''falha'']"
  by (simp add: analise_table_def get_col_def row_get_def)

lemma analise_counts:
  "value_counts sample_library [Str ''ok'', Null, Str ''ok'', Str ''falha'']
     = [(Str ''ok'', 2), (Str ''falha'', 1)]"
  by (simp add: value_counts_def unique_def sample_library_def)

lemma analise_chart:
  "create_statistics_chart sample_library analise_table ''Analise'' []
     = Inr \<lparr>categoria = [Str ''ok'', Str ''falha''], contagem = [2, 1],
            percentual = [200 / 3, 100 / 3], colors = [''#1f77b4'', ''#1f77b4'']\<rparr>"
  by (simp add: create_statistics_chart_def analise_column analise_counts dict_get_def
      percentage_def) (simp add: sample_library_def)

lemma missing_chart:
  "create_statistics_chart sample_library missing_table ''Analise'' []
     = Inr \<lparr>categoria = [], contagem = [], percentual = [], colors = []\<rparr>"
  by (simp add: create_statistics_chart_def missing_table_def get_col_def row_get_def
      value_counts_def unique_def)

text \<open>
  Claim C6 as stated fails: \<open>value_counts\<close> drops the missing entries. A table of four
  rows with one missing entry has counts that sum to three; a table whose only entry is
  missing has no category at all, so its percentages sum to zero.
\<close>

theorem statistics_counterexample:
  "create_statistics_chart sample_library analise_table ''Analise'' []
     = Inr \<lparr>categoria = [Str ''ok'', Str ''falha''], contagem = [2, 1],
            percentual = [200 / 3, 100 / 3], colors = [''#1f77b4'', ''#1f77b4'']\<rparr>
   \<and> sum_list [2, 1 :: nat] = 3
   \<and> length (rows analise_table) = 4
   \<and> create_statistics_chart sample_library missing_table ''Analise'' []
       = Inr \<lparr>categoria = [], contagem = [], percentual = [], colors = []\<rparr>
   \<and> length (rows missing_table) = 1"
  using analise_chart missing_chart by (simp add: analise_table_def missing_table_def)

text \<open>When every entry of the column is missing, there is no category.\<close>

lemma value_counts_all_missing:
  "filter (notnull lib) cs = [] \<Longrightarrow> value_counts lib cs = []"
  by (simp add: value_counts_def unique_def)

lemma statistics_all_missing:
  assumes "get_col df column_name = Inr cs" and "filter (notnull lib) cs = []"
  shows "create_statistics_chart lib df column_name color_map
           = Inr \<lparr>categoria = [], contagem = [], percentual = [], colors = []\<rparr>"
  using assms by (simp add: create_statistics_chart_def value_counts_all_missing)

text \<open>
  Claim C6, as the code has it. When the column exists, the charts are computed and the
  counts sum to the number of entries that are not missing. When there is such an entry,
  the percentages sum to 100 within 0.01, for any library whose doubles round as binary64
  does (the table having fewer than \<open>2 ^ 63\<close> rows). When every entry is missing, no
  category is returned and the percentages sum to 0.
\<close>

theorem statistics_sums:
  assumes "get_col df column_name = Inr cs"
  shows "\<exists>st. create_statistics_chart lib df column_name color_map = Inr st
           \<and> sum_list (contagem st) = length (filter (notnull lib) cs)
           \<and> (filter (notnull lib) cs \<noteq> [] \<and> binary64_model val lib \<and> length cs < 2 ^ 63
                \<longrightarrow> \<bar>sum_list (map val (percentual st)) - 100\<bar> \<le> 1 / 100)
           \<and> (filter (notnull lib) cs = []
                \<longrightarrow> categoria st = [] \<and> contagem st = [] \<and> percentual st = []
                    \<and> colors st = [] \<and> sum_list (map val (percentual st)) = 0)"
proof -
  obtain st where st: "create_statistics_chart lib df column_name color_map = Inr st"
    using assms by (simp add: create_statistics_chart_def Let_def)
  have counts: "sum_list (contagem st) = length (filter (notnull lib) cs)"
    using st assms by (auto simp: create_statistics_chart_def Let_def value_counts_sum)
  have present: "\<bar>sum_list (map val (percentual st)) - 100\<bar> \<le> 1 / 100"
    if "filter (notnull lib) cs \<noteq> [] \<and> binary64_model val lib \<and> length cs < 2 ^ 63"
    using percentages_sum_present [of val lib df column_name cs color_map] that assms st by auto
  have missing: "categoria st = [] \<and> contagem st = [] \<and> percentual st = []
                    \<and> colors st = [] \<and> sum_list (map val (percentual st)) = 0"
    if "filter (notnull lib) cs = []"
    using statistics_all_missing [OF assms that, of color_map] st by auto
  show ?thesis using st counts present missing by blast
qed

text \<open>
  On the table of four rows and on the table whose only entry is missing, with the sample
  library, whose arithmetic is exact.
\<close>

lemma missing_column: "get_col missing_table ''Analise'' = Inr [Null]"
  by (simp add: missing_table_def get_col_def row_get_def)

theorem statistics_sums_witness:
  "binary64_model (\<lambda>x. x) sample_library
   \<and> get_col analise_table ''Analise'' = Inr [Str ''ok'', Null, Str ''ok'', Str ''falha'']
   \<and> filter (notnull sample_library) [Str ''ok'', Null, Str ''ok'', Str ''falha'']
       = [Str ''ok'', Str ''ok'', Str ''falha'']
   \<and> (\<exists>st. create_statistics_chart sample_library analise_table ''Analise'' [] = Inr st
          \<and> sum_list (contagem st) = 3
          \<and> \<bar>sum_list (map (\<lambda>x. x) (percentual st)) - 100\<bar> \<le> 1 / 100)
   \<and> get_col missing_table ''Analise'' = Inr [Null]
   \<and> filter (notnull sample_library) [Null] = []
   \<and> (\<exists>st. create_statistics_chart sample_library missing_table ''Analise'' [] = Inr st
          \<and> sum_list (contagem st) = 0 \<and> categoria st = []
          \<and> sum_list (map (\<lambda>x. x) (percentual st)) = 0)"
proof -
  have a: "filter (notnull sample_library) [Str ''ok'', Null, Str ''ok'', Str ''falha'']
             = [Str ''ok'', Str ''ok'', Str ''falha'']"
    by simp
  have b: "length [Str ''ok'', Null, Str ''ok'', Str ''falha'' :: real cell] < 2 ^ 63"
    by simp
  have c: "filter (notnull sample_library) [Null] = []"
    by simp
  have present:
    "\<exists>st. create_statistics_chart sample_library analise_table ''Analise'' [] = Inr st
          \<and> sum_list (contagem st) = 3
          \<and> \<bar>sum_list (map (\<lambda>x. x) (percentual st)) - 100\<bar> \<le> 1 / 100"
    using statistics_sums
        [OF analise_column, where lib = sample_library and color_map = "[]" and val = "\<lambda>x. x"] sample_binary64 a b
    by (auto simp: numeral_3_eq_3)
  have missing:
    "\<exists>st. create_statistics_chart sample_library missing_table ''Analise'' [] = Inr st
          \<and> sum_list (contagem st) = 0 \<and> categoria st = []
          \<and> sum_list (map (\<lambda>x. x) (percentual st)) = 0"
    using statistics_sums
        [OF missing_column, where lib = sample_library and color_map = "[]" and val = "\<lambda>x. x"] c
    by auto
  show ?thesis
    using sample_binary64 analise_column a missing_column c present missing by blast
qed

end
